theory Spec2Isabelle
  imports Main
begin

section \<open>Data model (main.go, lines 13-49)\<close>

text \<open>
  Go's \<open>int\<close> is modelled as \<open>int\<close>: the program never does arithmetic on these
  fields, it only stores, reads and prints them. Field names carry a prefix because
  \<open>User\<close> and \<open>Restaurant\<close> share field names, and the catalog's fields share names
  with the methods of \<open>Database\<close>.
\<close>

record User =
  u_ID :: int
  u_Name :: string
  u_Lastname :: string
  u_Password :: string
  u_Email :: string
  u_Phone :: string

record Restaurant =
  r_ID :: int
  r_Name :: string
  r_Type :: string
  r_Keys :: string
  r_AveragePrice :: int
  r_UserID :: int

text \<open>The anonymous struct returned by \<open>SelectJoin\<close> (lines 148-156).\<close>

record JoinRow =
  j_UserID :: int
  j_UserName :: string
  j_UserLastname :: string
  j_RestaurantID :: int
  j_RestaurantName :: string
  j_Type :: string
  j_AveragePrice :: int

record Queries =
  q_DropUser :: string
  q_DropRestaurants :: string
  q_CreateUser :: string
  q_CreateRestaurants :: string
  q_InsertUser :: string
  q_InsertRestaurant :: string
  q_SelectUsers :: string
  q_SelectRestaurants :: string
  q_SelectJoin :: string

text \<open>Go's zero values: what \<open>var user User\<close> and its siblings hold before any write.\<close>

definition zero_User :: User where
  "zero_User = \<lparr>u_ID = 0, u_Name = [], u_Lastname = [], u_Password = [],
                 u_Email = [], u_Phone = []\<rparr>"

definition zero_Restaurant :: Restaurant where
  "zero_Restaurant = \<lparr>r_ID = 0, r_Name = [], r_Type = [], r_Keys = [],
                       r_AveragePrice = 0, r_UserID = 0\<rparr>"

definition zero_JoinRow :: JoinRow where
  "zero_JoinRow = \<lparr>j_UserID = 0, j_UserName = [], j_UserLastname = [],
                    j_RestaurantID = 0, j_RestaurantName = [], j_Type = [],
                    j_AveragePrice = 0\<rparr>"

definition zero_Queries :: Queries where
  "zero_Queries = \<lparr>q_DropUser = [], q_DropRestaurants = [], q_CreateUser = [],
                    q_CreateRestaurants = [], q_InsertUser = [], q_InsertRestaurant = [],
                    q_SelectUsers = [], q_SelectRestaurants = [], q_SelectJoin = []\<rparr>"

section \<open>Errors and outcomes\<close>

text \<open>
  The program passes Go \<open>error\<close> values through untouched. The model tags each error
  with the library call it came from: \<open>ioutil.ReadFile\<close>, \<open>yaml.Unmarshal\<close>,
  \<open>sql.Open\<close>, and the calls on the connection (\<open>Exec\<close>, \<open>Prepare\<close>, \<open>Query\<close>,
  \<open>Scan\<close>). The first two are the specification's ConfigError, the third its
  ConnectionError, the last its SQLError.
\<close>

datatype error = FileError string | YamlError string | OpenError string | SQLError string

fun err_msg :: "error \<Rightarrow> string" where
  "err_msg (FileError m) = m"
| "err_msg (YamlError m) = m"
| "err_msg (OpenError m) = m"
| "err_msg (SQLError m) = m"

fun is_ConfigError :: "error \<Rightarrow> bool" where
  "is_ConfigError (FileError m) = True"
| "is_ConfigError (YamlError m) = True"
| "is_ConfigError (OpenError m) = False"
| "is_ConfigError (SQLError m) = False"

text \<open>A call either returns or unwinds with a panic raised below it.\<close>

datatype 'a outcome = Return 'a | Panic string

section \<open>The world outside the program\<close>

text \<open>
  A column value as the driver hands it to \<open>Rows.Scan\<close>, and a bound parameter as
  the program hands it to \<open>Stmt.Exec\<close>.
\<close>

datatype sqlval = VNull | VInt int | VText string

text \<open>
  How the iteration of a result set ends: \<open>Rows.Next\<close> returns false at the end of the
  results, or returns false because of an error that only \<open>Rows.Err\<close> reports, or
  the driver panics.
\<close>

datatype ending = EndOfRows | IterError string | NextPanic string

record cursor =
  c_rows :: "sqlval list list"
  c_end :: ending

text \<open>
  The libraries the program calls, as parameters; \<open>'s\<close> is the state of the store.
  \<open>read_file\<close> is \<open>ioutil.ReadFile\<close>; \<open>yaml_parse\<close> is the parsing half of
  \<open>yaml.Unmarshal\<close>, giving the top-level keys of the document with their string
  values in document order, or else the error together with the keys and values that
  were decoded all the same; \<open>sql_open\<close> is \<open>sql.Open\<close> (\<open>None\<close>: no error);
  \<open>sql_exec\<close> runs a statement with its bound parameters and gives the error, if any,
  and the store afterwards; \<open>sql_prepare\<close> is \<open>DB.Prepare\<close>; \<open>sql_query\<close> is
  \<open>DB.Query\<close>; \<open>conv_int\<close> and \<open>conv_str\<close> are the conversions \<open>Rows.Scan\<close>
  applies for a destination of type \<open>*int\<close> and \<open>*string\<close>.
\<close>

record 's env =
  read_file :: "string \<Rightarrow> string + string"
  yaml_parse :: "string \<Rightarrow> (string \<times> (string \<times> string) list) + (string \<times> string) list"
  sql_open :: "string \<Rightarrow> string option"
  sql_exec :: "'s \<Rightarrow> string \<Rightarrow> sqlval list \<Rightarrow> string option \<times> 's"
  sql_prepare :: "'s \<Rightarrow> string \<Rightarrow> string option"
  sql_query :: "'s \<Rightarrow> string \<Rightarrow> string + cursor"
  conv_int :: "sqlval \<Rightarrow> string + int"
  conv_str :: "sqlval \<Rightarrow> string + string"

text \<open>Every call the program makes to the outside, in the order made.\<close>

datatype call =
    COpen string
  | CReadFile string
  | CUnmarshal string
  | CExec string "sqlval list"
  | CPrepare string
  | CStmtExec string "sqlval list"
  | CQuery string
  | CClose nat

text \<open>
  The state the program runs in: the store, the calls made so far, the result
  cursors opened and not yet released (\<open>w_opened\<close> counts the cursors opened so far
  and names the next one), and standard output.
\<close>

record 's world =
  w_store :: 's
  w_calls :: "call list"
  w_live :: "nat list"
  w_opened :: nat
  w_stdout :: string

definition note_call :: "call \<Rightarrow> 's world \<Rightarrow> 's world" where
  "note_call c w = w\<lparr>w_calls := w_calls w @ [c]\<rparr>"

definition open_cursor :: "'s world \<Rightarrow> nat \<times> 's world" where
  "open_cursor w = (w_opened w,
     w\<lparr>w_live := w_live w @ [w_opened w], w_opened := Suc (w_opened w)\<rparr>)"

text \<open>\<open>Rows.Close\<close>: releases the cursor; closing twice is harmless.\<close>

definition close_cursor :: "nat \<Rightarrow> 's world \<Rightarrow> 's world" where
  "close_cursor c w = note_call (CClose c) (w\<lparr>w_live := removeAll c (w_live w)\<rparr>)"

text \<open>A statement reaching the store: DDL, insert or select.\<close>

fun is_statement :: "call \<Rightarrow> bool" where
  "is_statement (CExec q a) = True"
| "is_statement (CPrepare q) = True"
| "is_statement (CStmtExec q a) = True"
| "is_statement (CQuery q) = True"
| "is_statement (COpen d) = False"
| "is_statement (CReadFile f) = False"
| "is_statement (CUnmarshal d) = False"
| "is_statement (CClose c) = False"

section \<open>Row scanning\<close>

text \<open>
  \<open>Rows.Scan\<close> with n destinations fails on a row that does not have n columns, and
  otherwise converts the columns from left to right, stopping at the first conversion
  that fails. \<open>scan_col\<close> chains one more conversion.
\<close>

definition scan_col :: "(string + 'a) \<Rightarrow> ('a \<Rightarrow> string + 'b) \<Rightarrow> string + 'b" where
  "scan_col r k = (case r of Inl m \<Rightarrow> Inl m | Inr x \<Rightarrow> k x)"

definition arity_msg :: string where
  "arity_msg = ''sql: wrong number of destination arguments in Scan''"

text \<open>Line 120: \<open>rows.Scan(&user.ID, &user.Name, &user.Lastname, &user.Password,
  &user.Email, &user.Phone)\<close> on a fresh \<open>var user User\<close>.\<close>

definition scan_user :: "'s env \<Rightarrow> sqlval list \<Rightarrow> string + User" where
  "scan_user env r =
    (if length r \<noteq> 6 then Inl arity_msg else
     scan_col (conv_int env (r ! 0)) (\<lambda>a.
     scan_col (conv_str env (r ! 1)) (\<lambda>b.
     scan_col (conv_str env (r ! 2)) (\<lambda>c.
     scan_col (conv_str env (r ! 3)) (\<lambda>d.
     scan_col (conv_str env (r ! 4)) (\<lambda>e.
     scan_col (conv_str env (r ! 5)) (\<lambda>f.
       Inr (zero_User\<lparr>u_ID := a, u_Name := b, u_Lastname := c, u_Password := d,
                       u_Email := e, u_Phone := f\<rparr>))))))))"

text \<open>Line 139: five destinations; \<open>restaurant.UserID\<close> is not among them.\<close>

definition scan_restaurant :: "'s env \<Rightarrow> sqlval list \<Rightarrow> string + Restaurant" where
  "scan_restaurant env r =
    (if length r \<noteq> 5 then Inl arity_msg else
     scan_col (conv_int env (r ! 0)) (\<lambda>a.
     scan_col (conv_str env (r ! 1)) (\<lambda>b.
     scan_col (conv_str env (r ! 2)) (\<lambda>c.
     scan_col (conv_str env (r ! 3)) (\<lambda>d.
     scan_col (conv_int env (r ! 4)) (\<lambda>e.
       Inr (zero_Restaurant\<lparr>r_ID := a, r_Name := b, r_Type := c, r_Keys := d,
                             r_AveragePrice := e\<rparr>)))))))"

text \<open>Lines 186-188: seven destinations.\<close>

definition scan_join :: "'s env \<Rightarrow> sqlval list \<Rightarrow> string + JoinRow" where
  "scan_join env r =
    (if length r \<noteq> 7 then Inl arity_msg else
     scan_col (conv_int env (r ! 0)) (\<lambda>a.
     scan_col (conv_str env (r ! 1)) (\<lambda>b.
     scan_col (conv_str env (r ! 2)) (\<lambda>c.
     scan_col (conv_int env (r ! 3)) (\<lambda>d.
     scan_col (conv_str env (r ! 4)) (\<lambda>e.
     scan_col (conv_str env (r ! 5)) (\<lambda>f.
     scan_col (conv_int env (r ! 6)) (\<lambda>g.
       Inr (zero_JoinRow\<lparr>j_UserID := a, j_UserName := b, j_UserLastname := c,
                          j_RestaurantID := d, j_RestaurantName := e, j_Type := f,
                          j_AveragePrice := g\<rparr>)))))))))"

section \<open>The select operations (main.go, lines 110-196)\<close>

text \<open>
  The loop \<open>for rows.Next() { ... Scan ...; xs = append(xs, x) }\<close> followed by
  \<open>return xs, nil\<close>, which the three selects share word for word (lines 117-125,
  136-144, 175-195); \<open>scan\<close> is the \<open>Scan\<close> call of the select at hand. A failed scan
  returns \<open>nil, err\<close>. When \<open>Next\<close> returns false the loop ends and \<open>Rows.Err\<close> is not
  asked why. The nil slice and the empty slice are both \<open>[]\<close>.
\<close>

fun rows_loop :: "(sqlval list \<Rightarrow> string + 'a) \<Rightarrow> sqlval list list \<Rightarrow> ending \<Rightarrow> 'a list
    \<Rightarrow> ('a list \<times> error option) outcome" where
  "rows_loop scan [] en acc =
     (case en of NextPanic m \<Rightarrow> Panic m | EndOfRows \<Rightarrow> Return (acc, None)
               | IterError m \<Rightarrow> Return (acc, None))"
| "rows_loop scan (r # rs) en acc =
     (case scan r of
        Inl m \<Rightarrow> Return ([], Some (SQLError m))
      | Inr x \<Rightarrow> rows_loop scan rs en (acc @ [x]))"

text \<open>
  \<open>rows, err := db.Query(query)\<close>, the early return on its error, \<open>defer rows.Close()\<close>
  and the loop. The deferred close runs when the function is left, whatever way it is
  left: it is applied to the world after the body for every outcome of the body.
\<close>

definition select_with :: "(sqlval list \<Rightarrow> string + 'a) \<Rightarrow> 's env \<Rightarrow> string \<Rightarrow> 's world
    \<Rightarrow> ('a list \<times> error option) outcome \<times> 's world" where
  "select_with scan env query w =
    (let w1 = note_call (CQuery query) w in
     case sql_query env (w_store w) query of
       Inl m \<Rightarrow> (Return ([], Some (SQLError m)), w1)
     | Inr rows \<Rightarrow>
         (let (cid, w2) = open_cursor w1;
              out = rows_loop scan (c_rows rows) (c_end rows) []
          in (out, close_cursor cid w2)))"

definition SelectUsers :: "'s env \<Rightarrow> string \<Rightarrow> 's world
    \<Rightarrow> (User list \<times> error option) outcome \<times> 's world" where
  "SelectUsers env query w = select_with (scan_user env) env query w"

definition SelectRestaurants :: "'s env \<Rightarrow> string \<Rightarrow> 's world
    \<Rightarrow> (Restaurant list \<times> error option) outcome \<times> 's world" where
  "SelectRestaurants env query w = select_with (scan_restaurant env) env query w"

definition SelectJoin :: "'s env \<Rightarrow> string \<Rightarrow> 's world
    \<Rightarrow> (JoinRow list \<times> error option) outcome \<times> 's world" where
  "SelectJoin env query w = select_with (scan_join env) env query w"

section \<open>Opening the store and loading the catalog (main.go, lines 51-70)\<close>

text \<open>
  \<open>NewDatabase\<close>: \<open>sql.Open\<close> and the wrapping of its handle. The program holds one
  handle, and every later call goes through it to the store of the world, so the
  handle itself carries nothing and the model returns only the error.
\<close>

definition NewDatabase :: "'s env \<Rightarrow> string \<Rightarrow> 's world \<Rightarrow> error option \<times> 's world" where
  "NewDatabase env dataSourceName w =
    (let w1 = note_call (COpen dataSourceName) w in
     case sql_open env dataSourceName of
       Some m \<Rightarrow> (Some (OpenError m), w1)
     | None \<Rightarrow> (None, w1))"

text \<open>
  What \<open>yaml.Unmarshal\<close> does with one key of the document: the field whose tag is
  the key takes the value, and a key that is no field's tag is skipped (lines 40-48).
\<close>

definition decode_field :: "string \<times> string \<Rightarrow> Queries \<Rightarrow> Queries" where
  "decode_field kv q =
    (if fst kv = ''drop_user'' then q\<lparr>q_DropUser := snd kv\<rparr>
     else if fst kv = ''drop_restaurants'' then q\<lparr>q_DropRestaurants := snd kv\<rparr>
     else if fst kv = ''create_user'' then q\<lparr>q_CreateUser := snd kv\<rparr>
     else if fst kv = ''create_restaurants'' then q\<lparr>q_CreateRestaurants := snd kv\<rparr>
     else if fst kv = ''insert_user'' then q\<lparr>q_InsertUser := snd kv\<rparr>
     else if fst kv = ''insert_restaurant'' then q\<lparr>q_InsertRestaurant := snd kv\<rparr>
     else if fst kv = ''select_users'' then q\<lparr>q_SelectUsers := snd kv\<rparr>
     else if fst kv = ''select_restaurants'' then q\<lparr>q_SelectRestaurants := snd kv\<rparr>
     else if fst kv = ''select_join'' then q\<lparr>q_SelectJoin := snd kv\<rparr>
     else q)"

text \<open>
  \<open>LoadQueries\<close>: \<open>var queries Queries\<close> starts at the zero value; a read error
  returns it as it is; otherwise \<open>Unmarshal\<close> writes the fields the document names.
  When \<open>Unmarshal\<close> fails, the catalog is returned with the fields written so far,
  next to the error (lines 68-69).
\<close>

definition LoadQueries :: "'s env \<Rightarrow> string \<Rightarrow> 's world
    \<Rightarrow> (Queries \<times> error option) \<times> 's world" where
  "LoadQueries env filename w =
    (let w1 = note_call (CReadFile filename) w in
     case read_file env filename of
       Inl m \<Rightarrow> ((zero_Queries, Some (FileError m)), w1)
     | Inr data \<Rightarrow>
         (let w2 = note_call (CUnmarshal data) w1 in
          case yaml_parse env data of
            Inl (m, decoded) \<Rightarrow>
              ((fold decode_field decoded zero_Queries, Some (YamlError m)), w2)
          | Inr kvs \<Rightarrow> ((fold decode_field kvs zero_Queries, None), w2)))"

section \<open>Schema initialisation and inserts (main.go, lines 72-107)\<close>

text \<open>The loop of \<open>Initialize\<close> (lines 81-86): \<open>db.Exec\<close> on each statement in turn,
  returning the first error.\<close>

fun exec_all :: "'s env \<Rightarrow> string list \<Rightarrow> 's world \<Rightarrow> error option \<times> 's world" where
  "exec_all env [] w = (None, w)"
| "exec_all env (statement # rest) w =
    (let (r, st) = sql_exec env (w_store w) statement [];
         w1 = note_call (CExec statement []) (w\<lparr>w_store := st\<rparr>)
     in case r of
          Some m \<Rightarrow> (Some (SQLError m), w1)
        | None \<Rightarrow> exec_all env rest w1)"

definition statements_of :: "Queries \<Rightarrow> string list" where
  "statements_of queries =
     [q_DropUser queries, q_DropRestaurants queries, q_CreateUser queries,
      q_CreateRestaurants queries]"

definition Initialize :: "'s env \<Rightarrow> Queries \<Rightarrow> 's world \<Rightarrow> error option \<times> 's world" where
  "Initialize env queries w = exec_all env (statements_of queries) w"

text \<open>\<open>db.Prepare(query)\<close>, the early return, then \<open>statement.Exec\<close> with the bound
  parameters; shared by the two inserts (lines 91-96 and 101-106).\<close>

definition prepare_exec :: "'s env \<Rightarrow> string \<Rightarrow> sqlval list \<Rightarrow> 's world
    \<Rightarrow> error option \<times> 's world" where
  "prepare_exec env query args w =
    (let w1 = note_call (CPrepare query) w in
     case sql_prepare env (w_store w) query of
       Some m \<Rightarrow> (Some (SQLError m), w1)
     | None \<Rightarrow>
         (let (r, st) = sql_exec env (w_store w1) query args
          in (map_option SQLError r,
              note_call (CStmtExec query args) (w1\<lparr>w_store := st\<rparr>))))"

definition InsertUser :: "'s env \<Rightarrow> User \<Rightarrow> string \<Rightarrow> 's world \<Rightarrow> error option \<times> 's world" where
  "InsertUser env user query w =
     prepare_exec env query
       [VText (u_Name user), VText (u_Lastname user), VText (u_Password user),
        VText (u_Email user), VText (u_Phone user)] w"

definition InsertRestaurant :: "'s env \<Rightarrow> Restaurant \<Rightarrow> string \<Rightarrow> 's world
    \<Rightarrow> error option \<times> 's world" where
  "InsertRestaurant env restaurant query w =
     prepare_exec env query
       [VText (r_Name restaurant), VText (r_Type restaurant), VText (r_Keys restaurant),
        VInt (r_AveragePrice restaurant), VInt (r_UserID restaurant)] w"

section \<open>Printing (main.go, lines 231-249)\<close>

text \<open>The verb \<open>%d\<close>: decimal digits, with a minus sign for a negative number.\<close>

definition digit :: "nat \<Rightarrow> char" where
  "digit n = ''0123456789'' ! n"

fun show_nat :: "nat \<Rightarrow> string" where
  "show_nat n = (if n < 10 then [digit n] else show_nat (n div 10) @ [digit (n mod 10)])"

declare show_nat.simps [simp del]

definition show_int :: "int \<Rightarrow> string" where
  "show_int i = (if i < 0 then CHR ''-'' # show_nat (nat (- i)) else show_nat (nat i))"

text \<open>Line 232: the format string is \<open>"User: %d %s %sn"\<close>; it ends with the letter n.\<close>

definition fmt_user :: "User \<Rightarrow> string" where
  "fmt_user u = ''User: '' @ show_int (u_ID u) @ '' '' @ u_Name u @ '' '' @ u_Lastname u @ ''n''"

text \<open>Line 238: \<open>"Restaurant: %d %s %sn"\<close>.\<close>

definition fmt_restaurant :: "Restaurant \<Rightarrow> string" where
  "fmt_restaurant r =
     ''Restaurant: '' @ show_int (r_ID r) @ '' '' @ r_Name r @ '' '' @ r_Type r @ ''n''"

text \<open>Lines 245-248.\<close>

definition fmt_join :: "JoinRow \<Rightarrow> string" where
  "fmt_join j =
     ''User ID: '' @ show_int (j_UserID j) @ '' | Name: '' @ j_UserName j @ '' ''
       @ j_UserLastname j @ '' | Restaurant ID: '' @ show_int (j_RestaurantID j)
       @ '' | Restaurant Name: '' @ j_RestaurantName j @ '' | Type: '' @ j_Type j
       @ '' | Average Price: '' @ show_int (j_AveragePrice j) @ ''n''"

text \<open>\<open>for _, x := range xs { fmt.Printf(...) }\<close>.\<close>

fun print_each :: "('a \<Rightarrow> string) \<Rightarrow> 'a list \<Rightarrow> 's world \<Rightarrow> 's world" where
  "print_each fmt [] w = w"
| "print_each fmt (x # xs) w = print_each fmt xs (w\<lparr>w_stdout := w_stdout w @ fmt x\<rparr>)"

section \<open>The entry point (main.go, lines 198-250)\<close>

text \<open>
  How the process ends: \<open>main\<close> returns; or \<open>log.Fatalf\<close> writes its message and
  exits with status 1; or a panic nobody recovers ends it.
\<close>

datatype exit = Exited | Fatal string | Crashed string

definition sample_user :: User where
  "sample_user = zero_User\<lparr>u_Name := ''lorem'', u_Lastname := ''lorem'',
     u_Password := ''lorem'', u_Email := ''lorem@example.com'', u_Phone := ''+88888888888''\<rparr>"

definition sample_restaurant :: Restaurant where
  "sample_restaurant = zero_Restaurant\<lparr>r_Name := ''ipsum'', r_Type := ''ipsum'',
     r_Keys := ''ipsum'', r_AveragePrice := 2, r_UserID := 1\<rparr>"

definition db_path :: string where
  "db_path = ''./project.db''"

definition queries_path :: string where
  "queries_path = ''./config/queries.yaml''"

text \<open>Lines 228-249: the three selects, each with its error discarded
  (\<open>users, _ := ...\<close>) and its rows printed.\<close>

definition main_selects :: "'s env \<Rightarrow> Queries \<Rightarrow> 's world \<Rightarrow> exit \<times> 's world" where
  "main_selects env queries w =
    (case SelectUsers env (q_SelectUsers queries) w of
       (Panic m, w1) \<Rightarrow> (Crashed m, w1)
     | (Return (users, _), w1) \<Rightarrow>
    (case SelectRestaurants env (q_SelectRestaurants queries) (print_each fmt_user users w1) of
       (Panic m, w2) \<Rightarrow> (Crashed m, w2)
     | (Return (restaurants, _), w2) \<Rightarrow>
    (case SelectJoin env (q_SelectJoin queries) (print_each fmt_restaurant restaurants w2) of
       (Panic m, w3) \<Rightarrow> (Crashed m, w3)
     | (Return (joinResults, _), w3) \<Rightarrow>
         (Exited, print_each fmt_join joinResults w3))))"

definition main :: "'s env \<Rightarrow> 's world \<Rightarrow> exit \<times> 's world" where
  "main env w =
    (case NewDatabase env db_path w of
       (Some e, w1) \<Rightarrow> (Fatal (''Error opening database: '' @ err_msg e), w1)
     | (None, w1) \<Rightarrow>
    (case LoadQueries env queries_path w1 of
       ((queries, Some e), w2) \<Rightarrow> (Fatal (''Error loading queries: '' @ err_msg e), w2)
     | ((queries, None), w2) \<Rightarrow>
    (case Initialize env queries w2 of
       (Some e, w3) \<Rightarrow> (Fatal (''Error initializing database: '' @ err_msg e), w3)
     | (None, w3) \<Rightarrow>
    (case InsertUser env sample_user (q_InsertUser queries) w3 of
       (Some e, w4) \<Rightarrow> (Fatal (''Error inserting user: '' @ err_msg e), w4)
     | (None, w4) \<Rightarrow>
    (case InsertRestaurant env sample_restaurant (q_InsertRestaurant queries) w4 of
       (Some e, w5) \<Rightarrow> (Fatal (''Error inserting restaurant: '' @ err_msg e), w5)
     | (None, w5) \<Rightarrow> main_selects env queries w5)))))"

section \<open>A store to run the program against\<close>

text \<open>
  Modelled from the spec: the SQL engine behind the driver and the catalog file
  \<open>config/queries.yaml\<close>, neither of which is among the sources. The specification
  gives the nine entries of the catalog and what each does (its sections 3, 4.1, 4.3,
  4.4 and 8): the two drops and the two creates; the insert of a user, whose identity
  the store assigns; the insert of a restaurant; the select of the users with the columns
  (id, name, lastname, password, email, phone); the select of the restaurants with the
  columns (id, name, type, keys, averagePrice); the inner join of restaurants with
  their users. It gives the text of the insert of a user; the other texts are
  stand-ins, and the store tells the nine statements apart by their text alone.
  A text that is none of the nine, the empty text among them, is a syntax error.
  A table is \<open>None\<close> when it does not exist, and otherwise its rows in the order
  inserted; a user row is (id, name, lastname, password, email, phone) and a
  restaurant row is (id, name, type, keys, averagePrice, userId).
\<close>

record store =
  s_user :: "sqlval list list option"
  s_restaurants :: "sqlval list list option"

text \<open>Modelled from the spec: the text of the catalog entry drop-user (a stand-in;
  the catalog file is not among the sources).\<close>

definition sql_drop_user :: string where
  "sql_drop_user = ''DROP TABLE IF EXISTS user''"

text \<open>Modelled from the spec: the text of the catalog entry drop-restaurants (a
  stand-in).\<close>

definition sql_drop_restaurants :: string where
  "sql_drop_restaurants = ''DROP TABLE IF EXISTS restaurants''"

text \<open>Modelled from the spec: the text of the catalog entry create-user (a
  stand-in).\<close>

definition sql_create_user :: string where
  "sql_create_user = ''CREATE TABLE user(...)''"

text \<open>Modelled from the spec: the text of the catalog entry create-restaurants (a
  stand-in).\<close>

definition sql_create_restaurants :: string where
  "sql_create_restaurants = ''CREATE TABLE restaurants(...)''"

text \<open>Modelled from the spec: the text of the catalog entry insert-user, as the
  scenario of the specification's section 8 gives it.\<close>

definition sql_insert_user :: string where
  "sql_insert_user = ''INSERT INTO user(name,lastname,password,email,phone) VALUES(?,?,?,?,?)''"

text \<open>Modelled from the spec: the text of the catalog entry insert-restaurant (a
  stand-in).\<close>

definition sql_insert_restaurant :: string where
  "sql_insert_restaurant = ''INSERT INTO restaurants(...) VALUES(?,?,?,?,?)''"

text \<open>Modelled from the spec: the text of the catalog entry select-users (a
  stand-in).\<close>

definition sql_select_users :: string where
  "sql_select_users = ''SELECT * FROM user''"

text \<open>Modelled from the spec: the text of the catalog entry select-restaurants (a
  stand-in).\<close>

definition sql_select_restaurants :: string where
  "sql_select_restaurants = ''SELECT id,name,type,keys,averagePrice FROM restaurants''"

text \<open>Modelled from the spec: the text of the catalog entry select-join (a
  stand-in).\<close>

definition sql_select_join :: string where
  "sql_select_join = ''SELECT ... FROM user JOIN restaurants ON ...''"

text \<open>Modelled from the spec: the catalog file \<open>config/queries.yaml\<close>, as the keys
  and values of its document; the keys are the tags of lines 40-48.\<close>

definition catalog_file :: "(string \<times> string) list" where
  "catalog_file =
    [(''drop_user'', sql_drop_user), (''drop_restaurants'', sql_drop_restaurants),
     (''create_user'', sql_create_user), (''create_restaurants'', sql_create_restaurants),
     (''insert_user'', sql_insert_user), (''insert_restaurant'', sql_insert_restaurant),
     (''select_users'', sql_select_users), (''select_restaurants'', sql_select_restaurants),
     (''select_join'', sql_select_join)]"

text \<open>Modelled from the spec: the catalog file with the text of one entry replaced,
  the other eight entries as they are.\<close>

definition catalog_with :: "string \<Rightarrow> string \<Rightarrow> (string \<times> string) list" where
  "catalog_with key text = map (\<lambda>kv. if fst kv = key then (key, text) else kv) catalog_file"

text \<open>Modelled from the spec: the engine's message for a text it cannot parse.\<close>

definition syntax_error :: string where
  "syntax_error = ''syntax error''"

text \<open>Modelled from the spec: the engine's message for a statement on a table that
  does not exist.\<close>

definition no_such_table :: string where
  "no_such_table = ''no such table''"

text \<open>Modelled from the spec: the engine's insert. It gives the new row the next
  identity, counting from 1, and stores the bound parameters after it.\<close>

definition insert_row :: "sqlval list list \<Rightarrow> sqlval list \<Rightarrow> sqlval list list" where
  "insert_row rows args = rows @ [VInt (int (length rows) + 1) # args]"

text \<open>Modelled from the spec: the engine executing a statement that returns no rows.
  A drop removes the table, there or not; a create makes the empty table and fails
  when the table exists; an insert needs its table and its five parameters.\<close>

definition store_exec :: "store \<Rightarrow> string \<Rightarrow> sqlval list \<Rightarrow> string option \<times> store" where
  "store_exec s q args =
    (if q = sql_drop_user then (None, s\<lparr>s_user := None\<rparr>)
     else if q = sql_drop_restaurants then (None, s\<lparr>s_restaurants := None\<rparr>)
     else if q = sql_create_user then
       (case s_user s of
          None \<Rightarrow> (None, s\<lparr>s_user := Some []\<rparr>)
        | Some rows \<Rightarrow> (Some ''table user already exists'', s))
     else if q = sql_create_restaurants then
       (case s_restaurants s of
          None \<Rightarrow> (None, s\<lparr>s_restaurants := Some []\<rparr>)
        | Some rows \<Rightarrow> (Some ''table restaurants already exists'', s))
     else if q = sql_insert_user then
       (case s_user s of
          None \<Rightarrow> (Some no_such_table, s)
        | Some rows \<Rightarrow>
            if length args = 5 then (None, s\<lparr>s_user := Some (insert_row rows args)\<rparr>)
            else (Some ''wrong number of parameters'', s))
     else if q = sql_insert_restaurant then
       (case s_restaurants s of
          None \<Rightarrow> (Some no_such_table, s)
        | Some rows \<Rightarrow>
            if length args = 5
            then (None, s\<lparr>s_restaurants := Some (insert_row rows args)\<rparr>)
            else (Some ''wrong number of parameters'', s))
     else (Some syntax_error, s))"

text \<open>Modelled from the spec: the engine preparing a statement. It accepts the
  texts of the catalog and no other.\<close>

definition store_prepare :: "store \<Rightarrow> string \<Rightarrow> string option" where
  "store_prepare s q =
    (if q \<in> set (map snd catalog_file) then None else Some syntax_error)"

text \<open>Modelled from the spec: the rows of the inner join. For each restaurant, in
  stored order, one row for each user whose identity is the restaurant's owning user:
  (user id, user name, user lastname, restaurant id, restaurant name, type, average
  price).\<close>

definition join_rows :: "sqlval list list \<Rightarrow> sqlval list list \<Rightarrow> sqlval list list" where
  "join_rows users restaurants =
     concat (map (\<lambda>r. map (\<lambda>u. take 3 u @ take 3 r @ [r ! 4])
                         (filter (\<lambda>u. hd u = r ! 5) users)) restaurants)"

text \<open>Modelled from the spec: the engine running a query. The users come with their
  six columns, the restaurants with their first five (the owning user is not
  selected), the join with its seven; the results end without an error.\<close>

definition store_query :: "store \<Rightarrow> string \<Rightarrow> string + cursor" where
  "store_query s q =
    (if q = sql_select_users then
       (case s_user s of
          None \<Rightarrow> Inl no_such_table
        | Some rows \<Rightarrow> Inr \<lparr>c_rows = rows, c_end = EndOfRows\<rparr>)
     else if q = sql_select_restaurants then
       (case s_restaurants s of
          None \<Rightarrow> Inl no_such_table
        | Some rows \<Rightarrow> Inr \<lparr>c_rows = map (take 5) rows, c_end = EndOfRows\<rparr>)
     else if q = sql_select_join then
       (case (s_user s, s_restaurants s) of
          (Some us, Some rs) \<Rightarrow> Inr \<lparr>c_rows = join_rows us rs, c_end = EndOfRows\<rparr>
        | _ \<Rightarrow> Inl no_such_table)
     else Inl syntax_error)"

text \<open>Modelled from the spec: the conversion \<open>Rows.Scan\<close> applies for a destination
  of type \<open>*int\<close>, on the values this store holds: an integer converts, NULL does
  not, and a text is taken not to.\<close>

fun store_conv_int :: "sqlval \<Rightarrow> string + int" where
  "store_conv_int (VInt i) = Inr i"
| "store_conv_int (VText t) = Inl ''converting driver.Value type string to a int''"
| "store_conv_int VNull = Inl ''converting NULL to int is unsupported''"

text \<open>Modelled from the spec: the conversion \<open>Rows.Scan\<close> applies for a destination
  of type \<open>*string\<close>: a text converts, an integer is written in decimal, NULL does
  not convert.\<close>

fun store_conv_str :: "sqlval \<Rightarrow> string + string" where
  "store_conv_str (VText t) = Inr t"
| "store_conv_str (VInt i) = Inr (show_int i)"
| "store_conv_str VNull = Inl ''converting NULL to string is unsupported''"

text \<open>Modelled from the spec: the environment with this store. Its one file is the
  catalog: \<open>Some kvs\<close> is a catalog file whose document has the keys and values
  \<open>kvs\<close>, \<open>None\<close> is no file. Opening the store always succeeds.\<close>

definition store_env :: "(string \<times> string) list option \<Rightarrow> store env" where
  "store_env catalog =
    \<lparr>read_file = (\<lambda>f. case catalog of
                         None \<Rightarrow> Inl ''no such file or directory''
                       | Some kvs \<Rightarrow>
                           if f = queries_path then Inr ''queries.yaml''
                           else Inl ''no such file or directory''),
     yaml_parse = (\<lambda>d. case catalog of
                          None \<Rightarrow> Inl (''yaml: no document'', [])
                        | Some kvs \<Rightarrow> Inr kvs),
     sql_open = (\<lambda>d. None),
     sql_exec = store_exec,
     sql_prepare = store_prepare,
     sql_query = store_query,
     conv_int = store_conv_int,
     conv_str = store_conv_str\<rparr>"

text \<open>Modelled from the spec: the world a run starts in, with no table in the store,
  no call made, no cursor open and nothing printed.\<close>

definition start :: "store world" where
  "start = \<lparr>w_store = \<lparr>s_user = None, s_restaurants = None\<rparr>, w_calls = [],
            w_live = [], w_opened = 0, w_stdout = []\<rparr>"

section \<open>Notions the claims are stated with\<close>

text \<open>The store after a run of statements executed one after another with no
  parameters, whether they fail or not: nothing is rolled back.\<close>

fun store_after :: "'s env \<Rightarrow> string list \<Rightarrow> 's \<Rightarrow> 's" where
  "store_after env [] s = s"
| "store_after env (q # qs) s = store_after env qs (snd (sql_exec env s q []))"

text \<open>What the store answers to statement number \<open>k\<close> of a list (counting from 0)
  when the statements before it have been executed.\<close>

definition stmt_result :: "'s env \<Rightarrow> 's \<Rightarrow> string list \<Rightarrow> nat \<Rightarrow> string option" where
  "stmt_result env s qs k = fst (sql_exec env (store_after env (take k qs) s) (qs ! k) [])"

text \<open>The steps of \<open>main\<close> before the selects, one by one: the error each step
  returns and the world it leaves, given that the steps before it were taken.
  \<open>loaded\<close> is the catalog the load returns.\<close>

definition open_err :: "'s env \<Rightarrow> 's world \<Rightarrow> error option" where
  "open_err env w = fst (NewDatabase env db_path w)"

definition after_open :: "'s env \<Rightarrow> 's world \<Rightarrow> 's world" where
  "after_open env w = snd (NewDatabase env db_path w)"

definition load_err :: "'s env \<Rightarrow> 's world \<Rightarrow> error option" where
  "load_err env w = snd (fst (LoadQueries env queries_path (after_open env w)))"

definition loaded :: "'s env \<Rightarrow> 's world \<Rightarrow> Queries" where
  "loaded env w = fst (fst (LoadQueries env queries_path (after_open env w)))"

definition after_load :: "'s env \<Rightarrow> 's world \<Rightarrow> 's world" where
  "after_load env w = snd (LoadQueries env queries_path (after_open env w))"

definition init_err :: "'s env \<Rightarrow> 's world \<Rightarrow> error option" where
  "init_err env w = fst (Initialize env (loaded env w) (after_load env w))"

definition after_init :: "'s env \<Rightarrow> 's world \<Rightarrow> 's world" where
  "after_init env w = snd (Initialize env (loaded env w) (after_load env w))"

definition user_err :: "'s env \<Rightarrow> 's world \<Rightarrow> error option" where
  "user_err env w =
     fst (InsertUser env sample_user (q_InsertUser (loaded env w)) (after_init env w))"

definition after_user :: "'s env \<Rightarrow> 's world \<Rightarrow> 's world" where
  "after_user env w =
     snd (InsertUser env sample_user (q_InsertUser (loaded env w)) (after_init env w))"

definition restaurant_err :: "'s env \<Rightarrow> 's world \<Rightarrow> error option" where
  "restaurant_err env w =
     fst (InsertRestaurant env sample_restaurant (q_InsertRestaurant (loaded env w))
            (after_user env w))"

definition after_restaurant :: "'s env \<Rightarrow> 's world \<Rightarrow> 's world" where
  "after_restaurant env w =
     snd (InsertRestaurant env sample_restaurant (q_InsertRestaurant (loaded env w))
            (after_user env w))"

section \<open>Unfolding the definitions on concrete inputs\<close>

lemmas select_defs = SelectUsers_def SelectRestaurants_def SelectJoin_def select_with_def
  scan_user_def scan_restaurant_def scan_join_def scan_col_def open_cursor_def
  close_cursor_def note_call_def zero_User_def zero_Restaurant_def zero_JoinRow_def Let_def

lemmas store_defs = store_env_def store_query_def store_exec_def store_prepare_def
  sql_select_users_def sql_select_restaurants_def sql_select_join_def
  sql_drop_user_def sql_drop_restaurants_def sql_create_user_def sql_create_restaurants_def
  sql_insert_user_def sql_insert_restaurant_def catalog_file_def insert_row_def join_rows_def

lemmas run_defs = main_def main_selects_def NewDatabase_def LoadQueries_def Initialize_def
  statements_of_def InsertUser_def InsertRestaurant_def prepare_exec_def decode_field_def
  zero_Queries_def sample_user_def sample_restaurant_def db_path_def queries_path_def
  fmt_user_def fmt_restaurant_def fmt_join_def show_int_def show_nat.simps digit_def
  syntax_error_def no_such_table_def

lemmas eval_defs = run_defs select_defs store_defs start_def

lemma store_env_simps:
  "sql_open (store_env c) d = None"
  "sql_exec (store_env c) = store_exec"
  "sql_prepare (store_env c) = store_prepare"
  "sql_query (store_env c) = store_query"
  "conv_int (store_env c) = store_conv_int"
  "conv_str (store_env c) = store_conv_str"
  "read_file (store_env None) f = Inl ''no such file or directory''"
  "read_file (store_env (Some kvs)) queries_path = Inr ''queries.yaml''"
  "yaml_parse (store_env (Some kvs)) d = Inr kvs"
  by (simp_all add: store_env_def)

section \<open>The row loop\<close>

lemma rows_loop_all_ok:
  "map scan rows = map Inr xs \<Longrightarrow> (\<forall>m. en \<noteq> NextPanic m) \<Longrightarrow>
   rows_loop scan rows en acc = Return (acc @ xs, None)"
proof (induction rows arbitrary: xs acc)
  case Nil
  then show ?case by (cases en) auto
next
  case (Cons r rows)
  then obtain x xs' where xs: "xs = x # xs'" by (cases xs) auto
  with Cons.prems have "scan r = Inr x" "map scan rows = map Inr xs'" by auto
  with Cons.IH [of xs' "acc @ [x]"] Cons.prems xs show ?case by simp
qed

lemma rows_loop_first_fail:
  "\<forall>p\<in>set pre. \<not> isl (scan p) \<Longrightarrow> scan r = Inl m \<Longrightarrow>
   rows_loop scan (pre @ r # post) en acc = Return ([], Some (SQLError m))"
proof (induction pre arbitrary: acc)
  case Nil
  then show ?case by simp
next
  case (Cons p pre)
  then obtain x where "scan p = Inr x" by (cases "scan p") auto
  with Cons.IH [of "acc @ [x]"] Cons.prems show ?case by simp
qed

lemma rows_loop_pred:
  "rows_loop scan rows en acc = Return (xs, e) \<Longrightarrow> (\<forall>x\<in>set acc. P x) \<Longrightarrow>
   (\<And>r x. scan r = Inr x \<Longrightarrow> P x) \<Longrightarrow> (\<forall>x\<in>set xs. P x)"
proof (induction rows arbitrary: acc)
  case Nil
  then show ?case by (cases en) auto
next
  case (Cons r rows)
  show ?case
  proof (cases "scan r")
    case (Inl m)
    with Cons.prems show ?thesis by simp
  next
    case (Inr x)
    with Cons.prems have "rows_loop scan rows en (acc @ [x]) = Return (xs, e)" by simp
    moreover have "\<forall>y\<in>set (acc @ [x]). P y" using Cons.prems Inr by auto
    ultimately show ?thesis using Cons.IH Cons.prems(3) by blast
  qed
qed

lemma rows_loop_ignores_iter_error:
  "rows_loop scan rows (IterError m) acc = rows_loop scan rows EndOfRows acc"
  by (induction rows arbitrary: acc) (auto split: sum.splits)

lemma rows_loop_exits:
  "(\<exists>xs. rows_loop scan rows en acc = Return (xs, None))
   \<or> (\<exists>m. rows_loop scan rows en acc = Return ([], Some (SQLError m)))
   \<or> (\<exists>m. rows_loop scan rows en acc = Panic m)"
  by (induction rows arbitrary: acc) (auto split: sum.splits ending.splits)

section \<open>The shape of a select\<close>

lemma select_with_query_ok:
  "sql_query env (w_store w) query = Inr c \<Longrightarrow>
   select_with scan env query w =
     (rows_loop scan (c_rows c) (c_end c) [],
      close_cursor (w_opened w) (snd (open_cursor (note_call (CQuery query) w))))"
  by (simp add: select_with_def Let_def open_cursor_def note_call_def)

lemma select_with_query_err:
  "sql_query env (w_store w) query = Inl m \<Longrightarrow>
   select_with scan env query w = (Return ([], Some (SQLError m)), note_call (CQuery query) w)"
  by (simp add: select_with_def Let_def)

lemma select_with_pred:
  assumes "fst (select_with scan env query w) = Return (xs, e)"
    and "\<And>r x. scan r = Inr x \<Longrightarrow> P x"
  shows "\<forall>x\<in>set xs. P x"
proof (cases "sql_query env (w_store w) query")
  case (Inl m)
  with assms(1) show ?thesis by (simp add: select_with_query_err)
next
  case (Inr c)
  with assms(1) have "rows_loop scan (c_rows c) (c_end c) [] = Return (xs, e)"
    by (simp add: select_with_query_ok)
  from rows_loop_pred [OF this _ assms(2)] show ?thesis by simp
qed

lemma scan_restaurant_UserID: "scan_restaurant env r = Inr x \<Longrightarrow> r_UserID x = 0"
  by (auto simp: scan_restaurant_def scan_col_def zero_Restaurant_def
           split: if_splits sum.splits)

section \<open>Claims about the selects\<close>

text \<open>
  C3. Every record that \<open>SelectRestaurants\<close> returns has \<open>UserID\<close> at the zero value,
  whatever the store holds for that restaurant: the scan has five destinations and
  \<open>UserID\<close> is not one of them.
\<close>

theorem SelectRestaurants_UserID_zero:
  "fst (SelectRestaurants env query w) = Return (restaurants, e) \<Longrightarrow>
   \<forall>r\<in>set restaurants. r_UserID r = 0"
  unfolding SelectRestaurants_def
  by (rule select_with_pred [where P = "\<lambda>r. r_UserID r = 0"])
     (auto dest: scan_restaurant_UserID)

theorem SelectRestaurants_UserID_zero_witness:
  "s_restaurants (w_store (start\<lparr>w_store := \<lparr>s_user = Some [], s_restaurants =
       Some [[VInt 1, VText ''ipsum'', VText ''ipsum'', VText ''ipsum'', VInt 2, VInt 1]]\<rparr>\<rparr>))
     = Some [[VInt 1, VText ''ipsum'', VText ''ipsum'', VText ''ipsum'', VInt 2, VInt 1]]
   \<and> fst (SelectRestaurants (store_env None) sql_select_restaurants
        (start\<lparr>w_store := \<lparr>s_user = Some [], s_restaurants =
           Some [[VInt 1, VText ''ipsum'', VText ''ipsum'', VText ''ipsum'', VInt 2, VInt 1]]\<rparr>\<rparr>))
     = Return ([\<lparr>r_ID = 1, r_Name = ''ipsum'', r_Type = ''ipsum'', r_Keys = ''ipsum'',
                 r_AveragePrice = 2, r_UserID = 0\<rparr>], None)
   \<and> map r_UserID [\<lparr>r_ID = 1, r_Name = ''ipsum'', r_Type = ''ipsum'', r_Keys = ''ipsum'',
                 r_AveragePrice = 2, r_UserID = 0\<rparr>] = [0]"
proof -
  have run: "fst (SelectRestaurants (store_env None) sql_select_restaurants
        (start\<lparr>w_store := \<lparr>s_user = Some [], s_restaurants =
           Some [[VInt 1, VText ''ipsum'', VText ''ipsum'', VText ''ipsum'', VInt 2, VInt 1]]\<rparr>\<rparr>))
     = Return ([\<lparr>r_ID = 1, r_Name = ''ipsum'', r_Type = ''ipsum'', r_Keys = ''ipsum'',
                 r_AveragePrice = 2, r_UserID = 0\<rparr>], None)"
    by (simp add: select_defs store_defs start_def)
  from SelectRestaurants_UserID_zero [OF run] run show ?thesis by simp
qed

text \<open>
  C5. In each of the three selects, when the scan of a row fails, the call returns
  that error and no rows: the rows scanned before the failing one are not returned.
\<close>

theorem scan_error_discards_rows:
  assumes "sql_query env (w_store w) query = Inr c"
    and "c_rows c = pre @ r # post"
  shows "((\<forall>p\<in>set pre. \<not> isl (scan_user env p)) \<and> scan_user env r = Inl m \<longrightarrow>
            fst (SelectUsers env query w) = Return ([], Some (SQLError m)))
       \<and> ((\<forall>p\<in>set pre. \<not> isl (scan_restaurant env p)) \<and> scan_restaurant env r = Inl m \<longrightarrow>
            fst (SelectRestaurants env query w) = Return ([], Some (SQLError m)))
       \<and> ((\<forall>p\<in>set pre. \<not> isl (scan_join env p)) \<and> scan_join env r = Inl m \<longrightarrow>
            fst (SelectJoin env query w) = Return ([], Some (SQLError m)))"
  using assms
  by (simp add: SelectUsers_def SelectRestaurants_def SelectJoin_def select_with_query_ok
        rows_loop_first_fail)


theorem scan_error_discards_rows_witness:
  "scan_user (store_env None)
      [VInt 1, VText ''a'', VText ''b'', VText ''c'', VText ''d'', VText ''e'']
     = Inr \<lparr>u_ID = 1, u_Name = ''a'', u_Lastname = ''b'', u_Password = ''c'',
            u_Email = ''d'', u_Phone = ''e''\<rparr>
   \<and> scan_user (store_env None)
      [VNull, VText ''a'', VText ''b'', VText ''c'', VText ''d'', VText ''e'']
     = Inl ''converting NULL to int is unsupported''
   \<and> fst (SelectUsers (store_env None) sql_select_users
        (start\<lparr>w_store := \<lparr>s_user = Some
            [[VInt 1, VText ''a'', VText ''b'', VText ''c'', VText ''d'', VText ''e''],
             [VNull, VText ''a'', VText ''b'', VText ''c'', VText ''d'', VText ''e'']],
           s_restaurants = None\<rparr>\<rparr>))
     = Return ([], Some (SQLError ''converting NULL to int is unsupported''))"
proof -
  let ?good = "[VInt 1, VText ''a'', VText ''b'', VText ''c'', VText ''d'', VText ''e'']"
  let ?bad = "[VNull, VText ''a'', VText ''b'', VText ''c'', VText ''d'', VText ''e'']"
  let ?w = "start\<lparr>w_store := \<lparr>s_user = Some [?good, ?bad], s_restaurants = None\<rparr>\<rparr>"
  have q: "sql_query (store_env None) (w_store ?w) sql_select_users
             = Inr \<lparr>c_rows = [?good, ?bad], c_end = EndOfRows\<rparr>"
    by (simp add: store_defs start_def)
  have rows: "c_rows \<lparr>c_rows = [?good, ?bad], c_end = EndOfRows\<rparr> = [?good] @ ?bad # []"
    by simp
  have good: "scan_user (store_env None) ?good
     = Inr \<lparr>u_ID = 1, u_Name = ''a'', u_Lastname = ''b'', u_Password = ''c'',
            u_Email = ''d'', u_Phone = ''e''\<rparr>"
    by (simp add: select_defs store_defs)
  have bad: "scan_user (store_env None) ?bad = Inl ''converting NULL to int is unsupported''"
    by (simp add: select_defs store_defs)
  from scan_error_discards_rows [OF q rows, of "''converting NULL to int is unsupported''"]
    good bad
  show ?thesis by simp
qed

lemma select_with_all_ok:
  "sql_query env (w_store w) query = Inr c \<Longrightarrow> map scan (c_rows c) = map Inr xs \<Longrightarrow>
   c_end c = IterError m \<Longrightarrow> fst (select_with scan env query w) = Return (xs, None)"
  by (simp add: select_with_query_ok rows_loop_all_ok)

lemma select_with_iter_error_same:
  "sql_query env (w_store w) query = Inr c \<Longrightarrow> c_end c = IterError m \<Longrightarrow>
   select_with scan (env\<lparr>sql_query := \<lambda>s q. Inr (c\<lparr>c_end := EndOfRows\<rparr>)\<rparr>) query w
     = select_with scan env query w"
  by (simp add: select_with_def Let_def rows_loop_ignores_iter_error split: prod.splits)

text \<open>
  C10. None of the three selects asks the cursor why the iteration stopped. When it
  stopped on an error after every row had scanned, the call returns the rows scanned
  with a nil error, exactly what it returns when the results simply end there.
\<close>

theorem iteration_error_dropped:
  assumes "sql_query env (w_store w) query = Inr c"
    and "c_end c = IterError m"
  shows "(map (scan_user env) (c_rows c) = map Inr us \<longrightarrow>
            fst (SelectUsers env query w) = Return (us, None))
       \<and> (map (scan_restaurant env) (c_rows c) = map Inr rs \<longrightarrow>
            fst (SelectRestaurants env query w) = Return (rs, None))
       \<and> (map (scan_join env) (c_rows c) = map Inr js \<longrightarrow>
            fst (SelectJoin env query w) = Return (js, None))
       \<and> SelectUsers (env\<lparr>sql_query := \<lambda>s q. Inr (c\<lparr>c_end := EndOfRows\<rparr>)\<rparr>) query w
            = SelectUsers env query w
       \<and> SelectRestaurants (env\<lparr>sql_query := \<lambda>s q. Inr (c\<lparr>c_end := EndOfRows\<rparr>)\<rparr>) query w
            = SelectRestaurants env query w
       \<and> SelectJoin (env\<lparr>sql_query := \<lambda>s q. Inr (c\<lparr>c_end := EndOfRows\<rparr>)\<rparr>) query w
            = SelectJoin env query w"
proof -
  have su: "scan_user (env\<lparr>sql_query := f\<rparr>) = scan_user env" for f
    by (rule ext) (simp add: scan_user_def)
  have sr: "scan_restaurant (env\<lparr>sql_query := f\<rparr>) = scan_restaurant env" for f
    by (rule ext) (simp add: scan_restaurant_def)
  have sj: "scan_join (env\<lparr>sql_query := f\<rparr>) = scan_join env" for f
    by (rule ext) (simp add: scan_join_def)
  note ok = select_with_all_ok [OF assms(1) _ assms(2)]
  note same = select_with_iter_error_same [OF assms]
  show ?thesis
    unfolding SelectUsers_def SelectRestaurants_def SelectJoin_def su sr sj
    by (intro conjI impI; (rule same | erule ok))
qed

theorem iteration_error_dropped_witness:
  "fst (SelectUsers ((store_env None)\<lparr>sql_query := \<lambda>s q. Inr \<lparr>c_rows =
          [[VInt 1, VText ''a'', VText ''b'', VText ''c'', VText ''d'', VText ''e'']],
          c_end = IterError ''database disk image is malformed''\<rparr>\<rparr>) sql_select_users start)
     = Return ([\<lparr>u_ID = 1, u_Name = ''a'', u_Lastname = ''b'', u_Password = ''c'',
                 u_Email = ''d'', u_Phone = ''e''\<rparr>], None)"
proof -
  let ?c = "\<lparr>c_rows = [[VInt 1, VText ''a'', VText ''b'', VText ''c'', VText ''d'', VText ''e'']],
            c_end = IterError ''database disk image is malformed''\<rparr>"
  let ?env = "(store_env None)\<lparr>sql_query := \<lambda>s q. Inr ?c\<rparr>"
  have q: "sql_query ?env (w_store start) sql_select_users = Inr ?c" by simp
  have e: "c_end ?c = IterError ''database disk image is malformed''" by simp
  have rows: "map (scan_user ?env) (c_rows ?c)
      = map Inr [\<lparr>u_ID = 1, u_Name = ''a'', u_Lastname = ''b'', u_Password = ''c'',
                 u_Email = ''d'', u_Phone = ''e''\<rparr>]"
    by (simp add: select_defs store_defs)
  from iteration_error_dropped [OF q e] rows show ?thesis by blast
qed

text \<open>
  C8. Once the query of a select has succeeded, the cursor it opened is released
  when the call is left, whichever way it is left: with the rows, with a scan error,
  or by a panic. The close is the last call the select makes.
\<close>

theorem cursor_released_on_every_exit:
  assumes "sql_query env (w_store w) query = Inr c"
  shows "w_live (snd (SelectUsers env query w)) = removeAll (w_opened w) (w_live w)
       \<and> w_live (snd (SelectRestaurants env query w)) = removeAll (w_opened w) (w_live w)
       \<and> w_live (snd (SelectJoin env query w)) = removeAll (w_opened w) (w_live w)
       \<and> last (w_calls (snd (SelectUsers env query w))) = CClose (w_opened w)
       \<and> last (w_calls (snd (SelectRestaurants env query w))) = CClose (w_opened w)
       \<and> last (w_calls (snd (SelectJoin env query w))) = CClose (w_opened w)
       \<and> ((\<exists>us. fst (SelectUsers env query w) = Return (us, None))
          \<or> (\<exists>m. fst (SelectUsers env query w) = Return ([], Some (SQLError m)))
          \<or> (\<exists>m. fst (SelectUsers env query w) = Panic m))
       \<and> ((\<exists>rs. fst (SelectRestaurants env query w) = Return (rs, None))
          \<or> (\<exists>m. fst (SelectRestaurants env query w) = Return ([], Some (SQLError m)))
          \<or> (\<exists>m. fst (SelectRestaurants env query w) = Panic m))
       \<and> ((\<exists>js. fst (SelectJoin env query w) = Return (js, None))
          \<or> (\<exists>m. fst (SelectJoin env query w) = Return ([], Some (SQLError m)))
          \<or> (\<exists>m. fst (SelectJoin env query w) = Panic m))"
  using assms
  by (simp add: SelectUsers_def SelectRestaurants_def SelectJoin_def select_with_query_ok
        close_cursor_def open_cursor_def note_call_def rows_loop_exits)

theorem cursor_released_on_every_exit_witness:
  "fst (SelectUsers ((store_env None)\<lparr>sql_query := \<lambda>s q. Inr \<lparr>c_rows =
          [[VInt 1, VText ''a'', VText ''b'', VText ''c'', VText ''d'', VText ''e'']],
          c_end = EndOfRows\<rparr>\<rparr>) sql_select_users (start\<lparr>w_live := [0], w_opened := 1\<rparr>))
     = Return ([\<lparr>u_ID = 1, u_Name = ''a'', u_Lastname = ''b'', u_Password = ''c'',
                 u_Email = ''d'', u_Phone = ''e''\<rparr>], None)
   \<and> w_live (snd (SelectUsers ((store_env None)\<lparr>sql_query := \<lambda>s q. Inr \<lparr>c_rows =
          [[VInt 1, VText ''a'', VText ''b'', VText ''c'', VText ''d'', VText ''e'']],
          c_end = EndOfRows\<rparr>\<rparr>) sql_select_users (start\<lparr>w_live := [0], w_opened := 1\<rparr>)))
     = [0]
   \<and> fst (SelectUsers ((store_env None)\<lparr>sql_query := \<lambda>s q. Inr \<lparr>c_rows =
          [[VNull, VText ''a'', VText ''b'', VText ''c'', VText ''d'', VText ''e'']],
          c_end = EndOfRows\<rparr>\<rparr>) sql_select_users (start\<lparr>w_live := [0], w_opened := 1\<rparr>))
     = Return ([], Some (SQLError ''converting NULL to int is unsupported''))
   \<and> w_live (snd (SelectUsers ((store_env None)\<lparr>sql_query := \<lambda>s q. Inr \<lparr>c_rows =
          [[VNull, VText ''a'', VText ''b'', VText ''c'', VText ''d'', VText ''e'']],
          c_end = EndOfRows\<rparr>\<rparr>) sql_select_users (start\<lparr>w_live := [0], w_opened := 1\<rparr>)))
     = [0]
   \<and> fst (SelectUsers ((store_env None)\<lparr>sql_query := \<lambda>s q. Inr \<lparr>c_rows =
          [[VInt 1, VText ''a'', VText ''b'', VText ''c'', VText ''d'', VText ''e'']],
          c_end = NextPanic ''nil pointer dereference''\<rparr>\<rparr>) sql_select_users
          (start\<lparr>w_live := [0], w_opened := 1\<rparr>))
     = Panic ''nil pointer dereference''
   \<and> w_live (snd (SelectUsers ((store_env None)\<lparr>sql_query := \<lambda>s q. Inr \<lparr>c_rows =
          [[VInt 1, VText ''a'', VText ''b'', VText ''c'', VText ''d'', VText ''e'']],
          c_end = NextPanic ''nil pointer dereference''\<rparr>\<rparr>) sql_select_users
          (start\<lparr>w_live := [0], w_opened := 1\<rparr>)))
     = [0]"
proof -
  let ?w = "start\<lparr>w_live := [0], w_opened := 1\<rparr>"
  let ?good = "[VInt 1, VText ''a'', VText ''b'', VText ''c'', VText ''d'', VText ''e'']"
  let ?bad = "[VNull, VText ''a'', VText ''b'', VText ''c'', VText ''d'', VText ''e'']"
  let ?c1 = "\<lparr>c_rows = [?good], c_end = EndOfRows\<rparr>"
  let ?c2 = "\<lparr>c_rows = [?bad], c_end = EndOfRows\<rparr>"
  let ?c3 = "\<lparr>c_rows = [?good], c_end = NextPanic ''nil pointer dereference''\<rparr>"
  have live: "removeAll (w_opened ?w) (w_live ?w) = [0]"
    by (simp add: start_def)
  have q1: "sql_query ((store_env None)\<lparr>sql_query := \<lambda>s q. Inr ?c1\<rparr>) (w_store ?w)
              sql_select_users = Inr ?c1" by simp
  have q2: "sql_query ((store_env None)\<lparr>sql_query := \<lambda>s q. Inr ?c2\<rparr>) (w_store ?w)
              sql_select_users = Inr ?c2" by simp
  have q3: "sql_query ((store_env None)\<lparr>sql_query := \<lambda>s q. Inr ?c3\<rparr>) (w_store ?w)
              sql_select_users = Inr ?c3" by simp
  have r1: "fst (SelectUsers ((store_env None)\<lparr>sql_query := \<lambda>s q. Inr ?c1\<rparr>)
              sql_select_users ?w)
     = Return ([\<lparr>u_ID = 1, u_Name = ''a'', u_Lastname = ''b'', u_Password = ''c'',
                 u_Email = ''d'', u_Phone = ''e''\<rparr>], None)"
    by (simp add: select_defs store_defs)
  have r2: "fst (SelectUsers ((store_env None)\<lparr>sql_query := \<lambda>s q. Inr ?c2\<rparr>)
              sql_select_users ?w)
     = Return ([], Some (SQLError ''converting NULL to int is unsupported''))"
    by (simp add: select_defs store_defs)
  have r3: "fst (SelectUsers ((store_env None)\<lparr>sql_query := \<lambda>s q. Inr ?c3\<rparr>)
              sql_select_users ?w) = Panic ''nil pointer dereference''"
    by (simp add: select_defs store_defs)
  from cursor_released_on_every_exit [OF q1] cursor_released_on_every_exit [OF q2]
    cursor_released_on_every_exit [OF q3] live r1 r2 r3
  show ?thesis by simp
qed

section \<open>Schema initialisation\<close>

lemma stmt_result_0: "stmt_result env s (q # qs) 0 = fst (sql_exec env s q [])"
  by (simp add: stmt_result_def)

lemma stmt_result_Suc:
  "stmt_result env s (q # qs) (Suc j) = stmt_result env (snd (sql_exec env s q [])) qs j"
  by (simp add: stmt_result_def)

lemma exec_all_prefix:
  "exec_all env qs w = (r, w') \<Longrightarrow>
   \<exists>k\<le>length qs.
      w_calls w' = w_calls w @ map (\<lambda>q. CExec q []) (take k qs)
    \<and> w_store w' = store_after env (take k qs) (w_store w)
    \<and> (\<forall>j. Suc j < k \<longrightarrow> stmt_result env (w_store w) qs j = None)
    \<and> (r = None \<longrightarrow> k = length qs \<and> (\<forall>j<k. stmt_result env (w_store w) qs j = None))
    \<and> (\<forall>e. r = Some e \<longrightarrow>
          0 < k \<and> (\<exists>m. stmt_result env (w_store w) qs (k - 1) = Some m \<and> e = SQLError m))"
proof (induction qs arbitrary: w)
  case Nil
  then show ?case by auto
next
  case (Cons q qs)
  obtain r0 st where ex: "sql_exec env (w_store w) q [] = (r0, st)"
    by (cases "sql_exec env (w_store w) q []")
  let ?w1 = "note_call (CExec q []) (w\<lparr>w_store := st\<rparr>)"
  show ?case
  proof (cases r0)
    case (Some m)
    with Cons.prems ex have "r = Some (SQLError m)" "w' = ?w1" by auto
    with ex Some show ?thesis
      by (intro exI [of _ 1]) (simp add: note_call_def stmt_result_0)
  next
    case None
    with Cons.prems ex have "exec_all env qs ?w1 = (r, w')" by simp
    from Cons.IH [OF this] obtain k where k: "k \<le> length qs"
      "w_calls w' = w_calls ?w1 @ map (\<lambda>q. CExec q []) (take k qs)"
      "w_store w' = store_after env (take k qs) (w_store ?w1)"
      "\<forall>j. Suc j < k \<longrightarrow> stmt_result env (w_store ?w1) qs j = None"
      "r = None \<longrightarrow> k = length qs \<and> (\<forall>j<k. stmt_result env (w_store ?w1) qs j = None)"
      "\<forall>e. r = Some e \<longrightarrow>
          0 < k \<and> (\<exists>m. stmt_result env (w_store ?w1) qs (k - 1) = Some m \<and> e = SQLError m)"
      by blast
    have st: "w_store ?w1 = st" "snd (sql_exec env (w_store w) q []) = st"
      using ex by (simp_all add: note_call_def)
    have res: "stmt_result env (w_store w) (q # qs) j
        = (case j of 0 \<Rightarrow> None | Suc i \<Rightarrow> stmt_result env st qs i)" for j
      using ex None by (cases j) (simp_all add: stmt_result_0 stmt_result_Suc)
    show ?thesis
    proof (intro exI [of _ "Suc k"] conjI)
      show "Suc k \<le> length (q # qs)" using k(1) by simp
      show "w_calls w' = w_calls w @ map (\<lambda>q. CExec q []) (take (Suc k) (q # qs))"
        using k(2) by (simp add: note_call_def)
      show "w_store w' = store_after env (take (Suc k) (q # qs)) (w_store w)"
        using k(3) st by simp
      show "\<forall>j. Suc j < Suc k \<longrightarrow> stmt_result env (w_store w) (q # qs) j = None"
        using k(4) st by (auto simp: res split: nat.splits)
      show "r = None \<longrightarrow> Suc k = length (q # qs)
              \<and> (\<forall>j<Suc k. stmt_result env (w_store w) (q # qs) j = None)"
        using k(5) st by (auto simp: res split: nat.splits)
      show "\<forall>e. r = Some e \<longrightarrow> 0 < Suc k
              \<and> (\<exists>m. stmt_result env (w_store w) (q # qs) (Suc k - 1) = Some m
                     \<and> e = SQLError m)"
      proof (intro allI impI)
        fix e assume "r = Some e"
        with k(6) obtain m where "0 < k"
          "stmt_result env (w_store ?w1) qs (k - 1) = Some m" "e = SQLError m" by blast
        then show "0 < Suc k
              \<and> (\<exists>m. stmt_result env (w_store w) (q # qs) (Suc k - 1) = Some m
                     \<and> e = SQLError m)"
          using st by (cases k) (simp_all add: res)
      qed
    qed
  qed
qed

text \<open>
  C4. \<open>Initialize\<close> executes drop-user, drop-restaurants, create-user and
  create-restaurants in that order. It stops at the first statement that fails and
  returns that error: the statements executed are the ones up to and including the
  failing one, none after it, and the store is left as those statements made it.
\<close>

theorem Initialize_order_and_abort:
  assumes "Initialize env queries w = (r, w')"
  shows "statements_of queries = [q_DropUser queries, q_DropRestaurants queries,
                                   q_CreateUser queries, q_CreateRestaurants queries]
    \<and> (\<exists>k\<le>4.
          w_calls w' = w_calls w @ map (\<lambda>q. CExec q []) (take k (statements_of queries))
        \<and> w_store w' = store_after env (take k (statements_of queries)) (w_store w)
        \<and> (\<forall>j. Suc j < k \<longrightarrow> stmt_result env (w_store w) (statements_of queries) j = None)
        \<and> (r = None \<longrightarrow> k = 4
              \<and> (\<forall>j<k. stmt_result env (w_store w) (statements_of queries) j = None))
        \<and> (\<forall>e. r = Some e \<longrightarrow> 0 < k
              \<and> (\<exists>m. stmt_result env (w_store w) (statements_of queries) (k - 1) = Some m
                     \<and> e = SQLError m)))"
proof -
  have len: "length (statements_of queries) = 4" by (simp add: statements_of_def)
  from assms have "exec_all env (statements_of queries) w = (r, w')"
    by (simp add: Initialize_def)
  from exec_all_prefix [OF this] show ?thesis
    unfolding len by (simp add: statements_of_def)
qed


theorem Initialize_order_and_abort_witness:
  "Initialize (store_env None)
      (zero_Queries\<lparr>q_DropUser := sql_drop_user, q_CreateUser := sql_create_user,
                     q_CreateRestaurants := sql_create_restaurants\<rparr>)
      (start\<lparr>w_store := \<lparr>s_user = Some [[VInt 1]], s_restaurants = Some [[VInt 1]]\<rparr>\<rparr>)
    = (Some (SQLError syntax_error),
       start\<lparr>w_store := \<lparr>s_user = None, s_restaurants = Some [[VInt 1]]\<rparr>,
              w_calls := [CExec sql_drop_user [], CExec [] []]\<rparr>)
   \<and> (\<exists>k\<le>4. [CExec sql_drop_user [], CExec [] []]
          = map (\<lambda>q. CExec q []) (take k [sql_drop_user, [], sql_create_user,
                                              sql_create_restaurants]))"
proof -
  let ?q = "zero_Queries\<lparr>q_DropUser := sql_drop_user, q_CreateUser := sql_create_user,
                     q_CreateRestaurants := sql_create_restaurants\<rparr>"
  let ?w = "start\<lparr>w_store := \<lparr>s_user = Some [[VInt 1]], s_restaurants = Some [[VInt 1]]\<rparr>\<rparr>"
  let ?w' = "start\<lparr>w_store := \<lparr>s_user = None, s_restaurants = Some [[VInt 1]]\<rparr>,
              w_calls := [CExec sql_drop_user [], CExec [] []]\<rparr>"
  have run: "Initialize (store_env None) ?q ?w = (Some (SQLError syntax_error), ?w')"
    by (simp add: Initialize_def statements_of_def zero_Queries_def note_call_def
          store_defs start_def)
  have calls: "w_calls ?w = []" "w_calls ?w' = [CExec sql_drop_user [], CExec [] []]"
    by (simp_all add: start_def)
  have stmts: "statements_of ?q = [sql_drop_user, [], sql_create_user, sql_create_restaurants]"
    by (simp add: statements_of_def zero_Queries_def)
  from Initialize_order_and_abort [OF run] obtain k where "k \<le> 4"
    "w_calls ?w' = w_calls ?w @ map (\<lambda>q. CExec q []) (take k (statements_of ?q))"
    by blast
  then have "\<exists>k\<le>4. [CExec sql_drop_user [], CExec [] []]
          = map (\<lambda>q. CExec q []) (take k [sql_drop_user, [], sql_create_user,
                                              sql_create_restaurants])"
    unfolding calls stmts by auto
  with run show ?thesis by simp
qed

section \<open>Loading the catalog\<close>

lemma decode_field_keeps:
  "fst kv \<noteq> ''drop_user'' \<Longrightarrow> q_DropUser (decode_field kv q) = q_DropUser q"
  "fst kv \<noteq> ''drop_restaurants'' \<Longrightarrow>
     q_DropRestaurants (decode_field kv q) = q_DropRestaurants q"
  "fst kv \<noteq> ''create_user'' \<Longrightarrow> q_CreateUser (decode_field kv q) = q_CreateUser q"
  "fst kv \<noteq> ''create_restaurants'' \<Longrightarrow>
     q_CreateRestaurants (decode_field kv q) = q_CreateRestaurants q"
  "fst kv \<noteq> ''insert_user'' \<Longrightarrow> q_InsertUser (decode_field kv q) = q_InsertUser q"
  "fst kv \<noteq> ''insert_restaurant'' \<Longrightarrow>
     q_InsertRestaurant (decode_field kv q) = q_InsertRestaurant q"
  "fst kv \<noteq> ''select_users'' \<Longrightarrow> q_SelectUsers (decode_field kv q) = q_SelectUsers q"
  "fst kv \<noteq> ''select_restaurants'' \<Longrightarrow>
     q_SelectRestaurants (decode_field kv q) = q_SelectRestaurants q"
  "fst kv \<noteq> ''select_join'' \<Longrightarrow> q_SelectJoin (decode_field kv q) = q_SelectJoin q"
  by (simp_all add: decode_field_def)

lemma fold_decode_keeps:
  assumes "\<And>kv q. fst kv \<noteq> key \<Longrightarrow> sel (decode_field kv q) = sel q"
    and "key \<notin> fst ` set kvs"
  shows "sel (fold decode_field kvs q) = sel q"
  using assms(2)
proof (induction kvs arbitrary: q)
  case Nil
  then show ?case by simp
next
  case (Cons kv kvs)
  then have "fst kv \<noteq> key" "key \<notin> fst ` set kvs" by auto
  with Cons.IH [of "decode_field kv q"] assms(1) [of kv q] show ?case by simp
qed

lemma fold_decode_missing:
  "''drop_user'' \<notin> fst ` set kvs \<Longrightarrow>
     q_DropUser (fold decode_field kvs q) = q_DropUser q"
  "''drop_restaurants'' \<notin> fst ` set kvs \<Longrightarrow>
     q_DropRestaurants (fold decode_field kvs q) = q_DropRestaurants q"
  "''create_user'' \<notin> fst ` set kvs \<Longrightarrow>
     q_CreateUser (fold decode_field kvs q) = q_CreateUser q"
  "''create_restaurants'' \<notin> fst ` set kvs \<Longrightarrow>
     q_CreateRestaurants (fold decode_field kvs q) = q_CreateRestaurants q"
  "''insert_user'' \<notin> fst ` set kvs \<Longrightarrow>
     q_InsertUser (fold decode_field kvs q) = q_InsertUser q"
  "''insert_restaurant'' \<notin> fst ` set kvs \<Longrightarrow>
     q_InsertRestaurant (fold decode_field kvs q) = q_InsertRestaurant q"
  "''select_users'' \<notin> fst ` set kvs \<Longrightarrow>
     q_SelectUsers (fold decode_field kvs q) = q_SelectUsers q"
  "''select_restaurants'' \<notin> fst ` set kvs \<Longrightarrow>
     q_SelectRestaurants (fold decode_field kvs q) = q_SelectRestaurants q"
  "''select_join'' \<notin> fst ` set kvs \<Longrightarrow>
     q_SelectJoin (fold decode_field kvs q) = q_SelectJoin q"
  by (erule fold_decode_keeps [rotated], erule decode_field_keeps)+

lemma LoadQueries_ok:
  "read_file env filename = Inr data \<Longrightarrow> yaml_parse env data = Inr kvs \<Longrightarrow>
   LoadQueries env filename w =
     ((fold decode_field kvs zero_Queries, None),
      note_call (CUnmarshal data) (note_call (CReadFile filename) w))"
  by (simp add: LoadQueries_def Let_def)

lemma LoadQueries_no_file:
  "read_file env filename = Inl m \<Longrightarrow>
   LoadQueries env filename w =
     ((zero_Queries, Some (FileError m)), note_call (CReadFile filename) w)"
  by (simp add: LoadQueries_def Let_def)

lemma LoadQueries_statements:
  "filter is_statement (w_calls (snd (LoadQueries env filename w)))
     = filter is_statement (w_calls w)"
  "w_store (snd (LoadQueries env filename w)) = w_store w"
  by (simp_all add: LoadQueries_def Let_def note_call_def split: sum.splits prod.splits)

section \<open>Errors at the point of use\<close>

lemma exec_all_rejected:
  "x \<in> set qs \<Longrightarrow> \<forall>s. fst (sql_exec env s x []) \<noteq> None \<Longrightarrow>
   \<exists>m. fst (exec_all env qs w) = Some (SQLError m)"
proof (induction qs arbitrary: w)
  case Nil
  then show ?case by simp
next
  case (Cons q qs)
  obtain r0 st where ex: "sql_exec env (w_store w) q [] = (r0, st)"
    by (cases "sql_exec env (w_store w) q []")
  show ?case
  proof (cases r0)
    case (Some m)
    with ex show ?thesis by simp
  next
    case None
    with ex Cons.prems have "x \<noteq> q" by (metis fst_conv)
    with Cons.prems have "x \<in> set qs" by simp
    from Cons.IH [OF this Cons.prems(2)] ex None show ?thesis by simp
  qed
qed

lemma prepare_exec_prepare_err:
  "sql_prepare env (w_store w) query = Some m \<Longrightarrow>
   fst (prepare_exec env query args w) = Some (SQLError m)"
  by (simp add: prepare_exec_def Let_def)

lemma prepare_exec_exec_err:
  "sql_prepare env (w_store w) query = None \<Longrightarrow>
   fst (sql_exec env (w_store w) query args) = Some m \<Longrightarrow>
   fst (prepare_exec env query args w) = Some (SQLError m)"
  by (auto simp: prepare_exec_def Let_def note_call_def split: prod.splits)

text \<open>
  C6. A key missing from the catalog file never makes the load fail: whenever the
  file is read and parsed the load succeeds, and each of the nine entries that the
  file does not name is the empty string. The load executes no statement and does
  not look at the SQL texts. A text the store rejects shows at the operation that
  executes it, as an SQLError: at \<open>Initialize\<close> for the four schema statements, at the
  insert for a text that cannot be prepared or executed, at the select for a query
  that fails.
\<close>

theorem missing_key_defers_failure:
  assumes "read_file env filename = Inr data"
    and "yaml_parse env data = Inr kvs"
    and "LoadQueries env filename w = ((queries, err), w')"
  shows "err = None
    \<and> (''drop_user'' \<notin> fst ` set kvs \<longrightarrow> q_DropUser queries = [])
    \<and> (''drop_restaurants'' \<notin> fst ` set kvs \<longrightarrow> q_DropRestaurants queries = [])
    \<and> (''create_user'' \<notin> fst ` set kvs \<longrightarrow> q_CreateUser queries = [])
    \<and> (''create_restaurants'' \<notin> fst ` set kvs \<longrightarrow> q_CreateRestaurants queries = [])
    \<and> (''insert_user'' \<notin> fst ` set kvs \<longrightarrow> q_InsertUser queries = [])
    \<and> (''insert_restaurant'' \<notin> fst ` set kvs \<longrightarrow> q_InsertRestaurant queries = [])
    \<and> (''select_users'' \<notin> fst ` set kvs \<longrightarrow> q_SelectUsers queries = [])
    \<and> (''select_restaurants'' \<notin> fst ` set kvs \<longrightarrow> q_SelectRestaurants queries = [])
    \<and> (''select_join'' \<notin> fst ` set kvs \<longrightarrow> q_SelectJoin queries = [])
    \<and> filter is_statement (w_calls w') = filter is_statement (w_calls w)
    \<and> w_store w' = w_store w
    \<and> ((\<exists>x\<in>set (statements_of queries). \<forall>s. fst (sql_exec env s x []) \<noteq> None) \<longrightarrow>
          (\<exists>m. fst (Initialize env queries v) = Some (SQLError m)))
    \<and> (sql_prepare env (w_store v) (q_InsertUser queries) = Some m \<longrightarrow>
          fst (InsertUser env user (q_InsertUser queries) v) = Some (SQLError m))
    \<and> (sql_prepare env (w_store v) (q_InsertRestaurant queries) = Some m \<longrightarrow>
          fst (InsertRestaurant env restaurant (q_InsertRestaurant queries) v)
            = Some (SQLError m))
    \<and> (sql_prepare env (w_store v) (q_InsertUser queries) = None
        \<and> fst (sql_exec env (w_store v) (q_InsertUser queries)
                 [VText (u_Name user), VText (u_Lastname user), VText (u_Password user),
                  VText (u_Email user), VText (u_Phone user)]) = Some m \<longrightarrow>
          fst (InsertUser env user (q_InsertUser queries) v) = Some (SQLError m))
    \<and> (sql_prepare env (w_store v) (q_InsertRestaurant queries) = None
        \<and> fst (sql_exec env (w_store v) (q_InsertRestaurant queries)
                 [VText (r_Name restaurant), VText (r_Type restaurant),
                  VText (r_Keys restaurant), VInt (r_AveragePrice restaurant),
                  VInt (r_UserID restaurant)]) = Some m \<longrightarrow>
          fst (InsertRestaurant env restaurant (q_InsertRestaurant queries) v)
            = Some (SQLError m))
    \<and> (sql_query env (w_store v) (q_SelectUsers queries) = Inl m \<longrightarrow>
          fst (SelectUsers env (q_SelectUsers queries) v) = Return ([], Some (SQLError m)))
    \<and> (sql_query env (w_store v) (q_SelectRestaurants queries) = Inl m \<longrightarrow>
          fst (SelectRestaurants env (q_SelectRestaurants queries) v)
            = Return ([], Some (SQLError m)))
    \<and> (sql_query env (w_store v) (q_SelectJoin queries) = Inl m \<longrightarrow>
          fst (SelectJoin env (q_SelectJoin queries) v) = Return ([], Some (SQLError m)))"
proof -
  from assms have q: "queries = fold decode_field kvs zero_Queries" and e: "err = None"
    and w': "w' = snd (LoadQueries env filename w)"
    by (simp_all add: LoadQueries_ok)
  have zero: "q_DropUser zero_Queries = []" "q_DropRestaurants zero_Queries = []"
    "q_CreateUser zero_Queries = []" "q_CreateRestaurants zero_Queries = []"
    "q_InsertUser zero_Queries = []" "q_InsertRestaurant zero_Queries = []"
    "q_SelectUsers zero_Queries = []" "q_SelectRestaurants zero_Queries = []"
    "q_SelectJoin zero_Queries = []"
    by (simp_all add: zero_Queries_def)
  have init: "(\<exists>x\<in>set (statements_of queries). \<forall>s. fst (sql_exec env s x []) \<noteq> None) \<longrightarrow>
          (\<exists>m. fst (Initialize env queries v) = Some (SQLError m))"
    unfolding Initialize_def using exec_all_rejected by blast
  show ?thesis
    unfolding e w' LoadQueries_statements
    using init
    by (simp add: q zero fold_decode_missing InsertUser_def
          InsertRestaurant_def prepare_exec_prepare_err prepare_exec_exec_err SelectUsers_def SelectRestaurants_def
          SelectJoin_def select_with_query_err)
qed

theorem missing_key_defers_failure_witness:
  "LoadQueries (store_env (Some [])) queries_path start
     = ((zero_Queries, None),
        start\<lparr>w_calls := [CReadFile queries_path, CUnmarshal ''queries.yaml'']\<rparr>)
   \<and> q_DropUser zero_Queries = []
   \<and> q_SelectUsers zero_Queries = []
   \<and> (\<exists>m. fst (Initialize (store_env (Some [])) zero_Queries start) = Some (SQLError m))
   \<and> fst (InsertUser (store_env (Some [])) sample_user (q_InsertUser zero_Queries) start)
       = Some (SQLError syntax_error)
   \<and> fst (SelectUsers (store_env (Some [])) (q_SelectUsers zero_Queries) start)
       = Return ([], Some (SQLError syntax_error))"
proof -
  let ?E = "store_env (Some [])"
  let ?w' = "start\<lparr>w_calls := [CReadFile queries_path, CUnmarshal ''queries.yaml'']\<rparr>"
  have rf: "read_file ?E queries_path = Inr ''queries.yaml''"
    by (simp add: store_env_def)
  have yp: "yaml_parse ?E ''queries.yaml'' = Inr []"
    by (simp add: store_env_def)
  have load: "LoadQueries ?E queries_path start = ((zero_Queries, None), ?w')"
    by (simp add: LoadQueries_ok [OF rf yp] note_call_def start_def)
  have keys: "''drop_user'' \<notin> fst ` set ([] :: (string \<times> string) list)"
    "''select_users'' \<notin> fst ` set ([] :: (string \<times> string) list)"
    by simp_all
  have zero: "statements_of zero_Queries = [[], [], [], []]" "q_InsertUser zero_Queries = []"
    "q_SelectUsers zero_Queries = []"
    by (simp_all add: statements_of_def zero_Queries_def)
  have rej: "\<exists>x\<in>set (statements_of zero_Queries). \<forall>s. fst (sql_exec ?E s x []) \<noteq> None"
    unfolding zero by (simp add: store_defs)
  have prep: "sql_prepare ?E (w_store start) (q_InsertUser zero_Queries) = Some syntax_error"
    unfolding zero by (simp add: store_defs)
  have qry: "sql_query ?E (w_store start) (q_SelectUsers zero_Queries) = Inl syntax_error"
    unfolding zero by (simp add: store_defs)
  from missing_key_defers_failure [OF rf yp load, where v = start and m = syntax_error
      and user = sample_user and restaurant = sample_restaurant]
    keys rej prep qry load
  show ?thesis by (clarsimp simp: zero)
qed

section \<open>The entry point\<close>

text \<open>
  C9. When the catalog file is missing, the load fails with the read error, a
  ConfigError, and the run executes no statement against the store: the statements
  among the calls made, and the store itself, are after \<open>main\<close> what they were before
  it, and the process ends in \<open>log.Fatalf\<close>.
\<close>

theorem missing_catalog_no_statement:
  assumes "read_file env queries_path = Inl m"
  shows "fst (LoadQueries env queries_path w) = (zero_Queries, Some (FileError m))
    \<and> is_ConfigError (FileError m)
    \<and> filter is_statement (w_calls (snd (main env w))) = filter is_statement (w_calls w)
    \<and> w_store (snd (main env w)) = w_store w
    \<and> (fst (main env w) = Fatal (''Error loading queries: '' @ m)
        \<or> (\<exists>m'. fst (main env w) = Fatal (''Error opening database: '' @ m')))"
  using assms
  by (simp add: main_def NewDatabase_def LoadQueries_no_file note_call_def Let_def
        split: option.splits)

theorem missing_catalog_no_statement_witness:
  "read_file (store_env None) queries_path = Inl ''no such file or directory''
   \<and> main (store_env None) start
       = (Fatal ''Error loading queries: no such file or directory'',
          start\<lparr>w_calls := [COpen db_path, CReadFile queries_path]\<rparr>)
   \<and> filter is_statement (w_calls (snd (main (store_env None) start))) = []"
proof -
  have rf: "read_file (store_env None) queries_path = Inl ''no such file or directory''"
    by (simp add: store_env_def)
  have run: "main (store_env None) start
       = (Fatal ''Error loading queries: no such file or directory'',
          start\<lparr>w_calls := [COpen db_path, CReadFile queries_path]\<rparr>)"
    by (simp add: main_def NewDatabase_def LoadQueries_no_file [OF rf] note_call_def
          store_env_simps start_def)
  from missing_catalog_no_statement [OF rf, of start] rf run
  show ?thesis by (simp add: start_def)
qed

lemmas step_defs = open_err_def after_open_def load_err_def loaded_def after_load_def
  init_err_def after_init_def user_err_def after_user_def restaurant_err_def
  after_restaurant_def

lemma select_with_issues_query:
  "CQuery x \<in> set (w_calls (snd (select_with scan env x u)))"
  by (simp add: select_with_def Let_def note_call_def open_cursor_def close_cursor_def
        split: sum.splits)

lemma select_with_keeps_calls:
  "set (w_calls u) \<subseteq> set (w_calls (snd (select_with scan env x u)))"
  by (auto simp: select_with_def Let_def note_call_def open_cursor_def close_cursor_def
        split: sum.splits)

lemma print_each_world:
  "w_calls (print_each f xs u) = w_calls u"
  "w_store (print_each f xs u) = w_store u"
  "w_live (print_each f xs u) = w_live u"
  "w_opened (print_each f xs u) = w_opened u"
  by (induction xs arbitrary: u) simp_all

lemma main_selects_after_failed_users:
  assumes "sql_query env (w_store v) (q_SelectUsers q) = Inl m"
  shows "CQuery (q_SelectRestaurants q) \<in> set (w_calls (snd (main_selects env q v)))"
proof -
  let ?v1 = "note_call (CQuery (q_SelectUsers q)) v"
  have su: "SelectUsers env (q_SelectUsers q) v = (Return ([], Some (SQLError m)), ?v1)"
    using assms by (simp add: SelectUsers_def select_with_query_err)
  obtain o2 v2 where sr:
    "SelectRestaurants env (q_SelectRestaurants q) (print_each fmt_user [] ?v1) = (o2, v2)"
    by (cases "SelectRestaurants env (q_SelectRestaurants q) (print_each fmt_user [] ?v1)")
  have in2: "CQuery (q_SelectRestaurants q) \<in> set (w_calls v2)"
    using select_with_issues_query [of "q_SelectRestaurants q" "scan_restaurant env" env ?v1] sr
    by (simp add: SelectRestaurants_def)
  show ?thesis
  proof (cases o2)
    case (Panic p)
    with su sr in2 show ?thesis by (simp add: main_selects_def)
  next
    case (Return res)
    obtain rs e2 where res: "res = (rs, e2)" by (cases res)
    obtain o3 v3 where sj:
      "SelectJoin env (q_SelectJoin q) (print_each fmt_restaurant rs v2) = (o3, v3)"
      by (cases "SelectJoin env (q_SelectJoin q) (print_each fmt_restaurant rs v2)")
    have "set (w_calls (print_each fmt_restaurant rs v2)) \<subseteq> set (w_calls v3)"
      using select_with_keeps_calls
        [of "print_each fmt_restaurant rs v2" "scan_join env" env "q_SelectJoin q"] sj
      by (simp add: SelectJoin_def)
    with in2 have in3: "CQuery (q_SelectRestaurants q) \<in> set (w_calls v3)"
      by (auto simp: print_each_world)
    show ?thesis
    proof (cases o3)
      case (Panic p)
      with su sr sj Return res in3 show ?thesis by (simp add: main_selects_def)
    next
      case (Return res3)
      obtain js e3 where "res3 = (js, e3)" by (cases res3)
      with su sr sj \<open>o2 = Return res\<close> res Return in3 show ?thesis
        by (simp add: main_selects_def print_each_world)
    qed
  qed
qed

lemma main_selects_returns:
  assumes "SelectUsers env (q_SelectUsers q) v = (Return (us, e1), v1)"
    and "SelectRestaurants env (q_SelectRestaurants q) (print_each fmt_user us v1)
           = (Return (rs, e2), v2)"
    and "SelectJoin env (q_SelectJoin q) (print_each fmt_restaurant rs v2)
           = (Return (js, e3), v3)"
  shows "main_selects env q v = (Exited, print_each fmt_join js v3)"
  using assms by (simp add: main_selects_def)

lemma main_selects_never_fatal: "fst (main_selects env q v) \<noteq> Fatal m"
  by (simp add: main_selects_def split: prod.splits outcome.splits)

text \<open>
  C1, in the form that holds of the program. Each of the first five steps is
  fatal: when the open, the load, the initialisation, the insert of the sample user
  or the insert of the sample restaurant fails, \<open>main\<close> ends in \<open>log.Fatalf\<close> with that error and the world is the
  one that step left, so no later step ran. The three selects are not fatal: \<open>main\<close>
  drops the error each returns. After the five steps it never ends in \<open>log.Fatalf\<close>;
  when select-users fails, select-restaurants is still queried; and when the three
  selects return, with or without errors, the rows they returned are printed and
  the process exits normally.
\<close>

theorem main_abort_policy:
  "(open_err env w = Some e \<longrightarrow>
      main env w = (Fatal (''Error opening database: '' @ err_msg e), after_open env w))
 \<and> (open_err env w = None \<and> load_err env w = Some e \<longrightarrow>
      main env w = (Fatal (''Error loading queries: '' @ err_msg e), after_load env w))
 \<and> (open_err env w = None \<and> load_err env w = None \<and> init_err env w = Some e \<longrightarrow>
      main env w = (Fatal (''Error initializing database: '' @ err_msg e), after_init env w))
 \<and> (open_err env w = None \<and> load_err env w = None \<and> init_err env w = None
      \<and> user_err env w = Some e \<longrightarrow>
      main env w = (Fatal (''Error inserting user: '' @ err_msg e), after_user env w))
 \<and> (open_err env w = None \<and> load_err env w = None \<and> init_err env w = None
      \<and> user_err env w = None \<and> restaurant_err env w = Some e \<longrightarrow>
      main env w = (Fatal (''Error inserting restaurant: '' @ err_msg e),
                    after_restaurant env w))
 \<and> (open_err env w = None \<and> load_err env w = None \<and> init_err env w = None
      \<and> user_err env w = None \<and> restaurant_err env w = None \<longrightarrow>
      main env w = main_selects env (loaded env w) (after_restaurant env w))
 \<and> fst (main_selects env q v) \<noteq> Fatal m
 \<and> (sql_query env (w_store v) (q_SelectUsers q) = Inl m \<longrightarrow>
      CQuery (q_SelectRestaurants q) \<in> set (w_calls (snd (main_selects env q v))))
 \<and> (SelectUsers env (q_SelectUsers q) v = (Return (us, e1), v1)
      \<and> SelectRestaurants env (q_SelectRestaurants q) (print_each fmt_user us v1)
           = (Return (rs, e2), v2)
      \<and> SelectJoin env (q_SelectJoin q) (print_each fmt_restaurant rs v2)
           = (Return (js, e3), v3) \<longrightarrow>
      main_selects env q v = (Exited, print_each fmt_join js v3))"
proof -
  have steps: "main env w =
    (case open_err env w of
       Some e \<Rightarrow> (Fatal (''Error opening database: '' @ err_msg e), after_open env w)
     | None \<Rightarrow>
    (case load_err env w of
       Some e \<Rightarrow> (Fatal (''Error loading queries: '' @ err_msg e), after_load env w)
     | None \<Rightarrow>
    (case init_err env w of
       Some e \<Rightarrow> (Fatal (''Error initializing database: '' @ err_msg e), after_init env w)
     | None \<Rightarrow>
    (case user_err env w of
       Some e \<Rightarrow> (Fatal (''Error inserting user: '' @ err_msg e), after_user env w)
     | None \<Rightarrow>
    (case restaurant_err env w of
       Some e \<Rightarrow> (Fatal (''Error inserting restaurant: '' @ err_msg e),
                   after_restaurant env w)
     | None \<Rightarrow> main_selects env (loaded env w) (after_restaurant env w))))))"
  proof -
    obtain r1 w1 where 1: "NewDatabase env db_path w = (r1, w1)"
      by (cases "NewDatabase env db_path w")
    obtain qr w2 where 2: "LoadQueries env queries_path w1 = (qr, w2)"
      by (cases "LoadQueries env queries_path w1")
    obtain qs r2 where qr: "qr = (qs, r2)" by (cases qr)
    obtain r3 w3 where 3: "Initialize env qs w2 = (r3, w3)"
      by (cases "Initialize env qs w2")
    obtain r4 w4 where 4: "InsertUser env sample_user (q_InsertUser qs) w3 = (r4, w4)"
      by (cases "InsertUser env sample_user (q_InsertUser qs) w3")
    obtain r5 w5 where 5:
      "InsertRestaurant env sample_restaurant (q_InsertRestaurant qs) w4 = (r5, w5)"
      by (cases "InsertRestaurant env sample_restaurant (q_InsertRestaurant qs) w4")
    show ?thesis
      by (simp add: main_def step_defs 1 2 qr 3 4 5 split: option.splits)
  qed
  show ?thesis
    using main_selects_after_failed_users [of env v q m] main_selects_never_fatal [of env q v m]
      main_selects_returns [of env q v us e1 v1 rs e2 v2 js e3 v3]
    by (simp add: steps)
qed

theorem main_abort_policy_witness:
  "main ((store_env None)\<lparr>sql_open := \<lambda>d. Some ''unable to open database file''\<rparr>) start
     = (Fatal ''Error opening database: unable to open database file'',
        after_open ((store_env None)\<lparr>sql_open := \<lambda>d. Some ''unable to open database file''\<rparr>)
          start)
 \<and> main (store_env None) start
     = (Fatal ''Error loading queries: no such file or directory'',
        after_load (store_env None) start)
 \<and> main (store_env (Some (catalog_with ''create_user'' ''garbage''))) start
     = (Fatal ''Error initializing database: syntax error'',
        after_init (store_env (Some (catalog_with ''create_user'' ''garbage''))) start)
 \<and> main (store_env (Some (catalog_with ''insert_user'' ''garbage''))) start
     = (Fatal ''Error inserting user: syntax error'',
        after_user (store_env (Some (catalog_with ''insert_user'' ''garbage''))) start)
 \<and> main (store_env (Some (catalog_with ''insert_restaurant'' ''garbage''))) start
     = (Fatal ''Error inserting restaurant: syntax error'',
        after_restaurant (store_env (Some (catalog_with ''insert_restaurant'' ''garbage'')))
          start)
 \<and> main (store_env (Some catalog_file)) start
     = main_selects (store_env (Some catalog_file))
         (loaded (store_env (Some catalog_file)) start)
         (after_restaurant (store_env (Some catalog_file)) start)
 \<and> q_SelectUsers (loaded (store_env (Some (catalog_with ''select_users'' ''garbage''))) start)
     = ''garbage''
 \<and> q_SelectRestaurants
       (loaded (store_env (Some (catalog_with ''select_users'' ''garbage''))) start)
     = sql_select_restaurants
 \<and> CQuery sql_select_restaurants
     \<in> set (w_calls (snd (main_selects
           (store_env (Some (catalog_with ''select_users'' ''garbage'')))
           (loaded (store_env (Some (catalog_with ''select_users'' ''garbage''))) start)
           (after_restaurant (store_env (Some (catalog_with ''select_users'' ''garbage'')))
              start))))
 \<and> fst (main_selects
           (store_env (Some (catalog_with ''select_users'' ''garbage'')))
           (loaded (store_env (Some (catalog_with ''select_users'' ''garbage''))) start)
           (after_restaurant (store_env (Some (catalog_with ''select_users'' ''garbage'')))
              start)) = Exited"
proof -
  note ev = step_defs eval_defs catalog_with_def
  let ?Eo = "(store_env None)\<lparr>sql_open := \<lambda>d. Some ''unable to open database file''\<rparr>"
  have o: "open_err ?Eo start = Some (OpenError ''unable to open database file'')"
    by (simp add: ev)
  have l: "open_err (store_env None) start = None
      \<and> load_err (store_env None) start = Some (FileError ''no such file or directory'')"
    by (simp add: ev)
  let ?Ei = "store_env (Some (catalog_with ''create_user'' ''garbage''))"
  have i: "open_err ?Ei start = None \<and> load_err ?Ei start = None
      \<and> init_err ?Ei start = Some (SQLError ''syntax error'')"
    by (simp add: ev)
  let ?Eu = "store_env (Some (catalog_with ''insert_user'' ''garbage''))"
  have u: "open_err ?Eu start = None \<and> load_err ?Eu start = None \<and> init_err ?Eu start = None
      \<and> user_err ?Eu start = Some (SQLError ''syntax error'')"
    by (simp add: ev)
  let ?Er = "store_env (Some (catalog_with ''insert_restaurant'' ''garbage''))"
  have r: "open_err ?Er start = None \<and> load_err ?Er start = None \<and> init_err ?Er start = None
      \<and> user_err ?Er start = None
      \<and> restaurant_err ?Er start = Some (SQLError ''syntax error'')"
    by (simp add: ev)
  let ?E9 = "store_env (Some catalog_file)"
  have a: "open_err ?E9 start = None \<and> load_err ?E9 start = None \<and> init_err ?E9 start = None
      \<and> user_err ?E9 start = None \<and> restaurant_err ?E9 start = None"
    by (simp add: ev)
  let ?Es = "store_env (Some (catalog_with ''select_users'' ''garbage''))"
  let ?q = "loaded ?Es start"
  let ?v = "after_restaurant ?Es start"
  have qs: "q_SelectUsers ?q = ''garbage''" "q_SelectRestaurants ?q = sql_select_restaurants"
    by (simp_all add: ev)
  have s: "sql_query ?Es (w_store ?v) (q_SelectUsers ?q) = Inl ''syntax error''"
    by (simp add: ev)
  let ?v1 = "snd (SelectUsers ?Es (q_SelectUsers ?q) ?v)"
  let ?rs = "[\<lparr>r_ID = 1, r_Name = ''ipsum'', r_Type = ''ipsum'', r_Keys = ''ipsum'',
               r_AveragePrice = 2, r_UserID = 0\<rparr>]"
  let ?v2 = "snd (SelectRestaurants ?Es (q_SelectRestaurants ?q) (print_each fmt_user [] ?v1))"
  let ?js = "[\<lparr>j_UserID = 1, j_UserName = ''lorem'', j_UserLastname = ''lorem'',
               j_RestaurantID = 1, j_RestaurantName = ''ipsum'', j_Type = ''ipsum'',
               j_AveragePrice = 2\<rparr>]"
  let ?v3 = "snd (SelectJoin ?Es (q_SelectJoin ?q) (print_each fmt_restaurant ?rs ?v2))"
  have s1: "SelectUsers ?Es (q_SelectUsers ?q) ?v
      = (Return ([], Some (SQLError ''syntax error'')), ?v1)"
    by (simp add: prod_eq_iff) (simp add: ev)
  have s2: "SelectRestaurants ?Es (q_SelectRestaurants ?q) (print_each fmt_user [] ?v1)
      = (Return (?rs, None), ?v2)"
    by (simp add: prod_eq_iff) (simp add: ev)
  have s3: "SelectJoin ?Es (q_SelectJoin ?q) (print_each fmt_restaurant ?rs ?v2)
      = (Return (?js, None), ?v3)"
    by (simp add: prod_eq_iff) (simp add: ev)
  note th = main_abort_policy
  from th [where env = ?Eo and w = start and e = "OpenError ''unable to open database file''"]
    o have 1: "main ?Eo start
     = (Fatal ''Error opening database: unable to open database file'', after_open ?Eo start)"
    by simp
  from th [where env = "store_env None" and w = start
      and e = "FileError ''no such file or directory''"] l
  have 2: "main (store_env None) start
     = (Fatal ''Error loading queries: no such file or directory'',
        after_load (store_env None) start)"
    by simp
  from th [where env = ?Ei and w = start and e = "SQLError ''syntax error''"] i
  have 3: "main ?Ei start
     = (Fatal ''Error initializing database: syntax error'', after_init ?Ei start)"
    by simp
  from th [where env = ?Eu and w = start and e = "SQLError ''syntax error''"] u
  have 4: "main ?Eu start
     = (Fatal ''Error inserting user: syntax error'', after_user ?Eu start)"
    by simp
  from th [where env = ?Er and w = start and e = "SQLError ''syntax error''"] r
  have 5: "main ?Er start
     = (Fatal ''Error inserting restaurant: syntax error'', after_restaurant ?Er start)"
    by simp
  from th [where env = ?E9 and w = start] a
  have 6: "main ?E9 start = main_selects ?E9 (loaded ?E9 start) (after_restaurant ?E9 start)"
    by simp
  from th [where env = ?Es and q = ?q and v = ?v and m = "''syntax error''"] s
  have 7: "CQuery (q_SelectRestaurants ?q) \<in> set (w_calls (snd (main_selects ?Es ?q ?v)))"
    by simp
  from th [where env = ?Es and q = ?q and v = ?v and us = "[]"
      and ?e1.0 = "Some (SQLError ''syntax error'')" and ?v1.0 = ?v1 and rs = ?rs
      and ?e2.0 = None and ?v2.0 = ?v2 and js = ?js and ?e3.0 = None and ?v3.0 = ?v3]
    s1 s2 s3
  have 8: "fst (main_selects ?Es ?q ?v) = Exited"
    by simp
  from 1 2 3 4 5 6 7 8 qs show ?thesis by simp
qed

theorem select_failure_not_fatal_counterexample:
  "q_SelectUsers (loaded (store_env (Some (catalog_with ''select_users'' ''garbage''))) start)
     = ''garbage''
 \<and> fst (SelectUsers (store_env (Some (catalog_with ''select_users'' ''garbage'')))
          ''garbage''
          (after_restaurant (store_env (Some (catalog_with ''select_users'' ''garbage'')))
             start))
     = Return ([], Some (SQLError ''syntax error''))
 \<and> fst (main (store_env (Some (catalog_with ''select_users'' ''garbage''))) start) = Exited
 \<and> w_calls (snd (main (store_env (Some (catalog_with ''select_users'' ''garbage''))) start))
     = w_calls (after_restaurant (store_env (Some (catalog_with ''select_users'' ''garbage'')))
                  start)
         @ [CQuery ''garbage'', CQuery sql_select_restaurants, CClose 0,
            CQuery sql_select_join, CClose 1]
 \<and> w_stdout (snd (main (store_env (Some (catalog_with ''select_users'' ''garbage''))) start))
     = ''Restaurant: 1 ipsum ipsumn''
       @ ''User ID: 1 | Name: lorem lorem | Restaurant ID: 1 | Restaurant Name: ipsum''
       @ '' | Type: ipsum | Average Price: 2n''"
  by (simp add: step_defs eval_defs catalog_with_def)

section \<open>Output\<close>

text \<open>
  C2. Each record is printed with its fields in the order of the specification, but
  the three format strings end with the letter n where a newline was meant: what is
  written for a record ends with \<open>n\<close>, and the whole output of a run with one user,
  one restaurant and one joined row is a single line with no newline in it.
\<close>

theorem printed_records_end_with_letter_n:
  "last (fmt_user u) = CHR ''n''
   \<and> last (fmt_restaurant r) = CHR ''n''
   \<and> last (fmt_join j) = CHR ''n''
   \<and> fst (main (store_env (Some catalog_file)) start) = Exited
   \<and> w_stdout (snd (main (store_env (Some catalog_file)) start))
       = ''User: 1 lorem loremnRestaurant: 1 ipsum ipsumn''
         @ ''User ID: 1 | Name: lorem lorem | Restaurant ID: 1 | Restaurant Name: ipsum''
         @ '' | Type: ipsum | Average Price: 2n''
   \<and> CHR 0x0A \<notin> set (w_stdout (snd (main (store_env (Some catalog_file)) start)))"
proof -
  have out: "w_stdout (snd (main (store_env (Some catalog_file)) start))
       = ''User: 1 lorem loremnRestaurant: 1 ipsum ipsumn''
         @ ''User ID: 1 | Name: lorem lorem | Restaurant ID: 1 | Restaurant Name: ipsum''
         @ '' | Type: ipsum | Average Price: 2n''"
    by (simp add: eval_defs)
  have ex: "fst (main (store_env (Some catalog_file)) start) = Exited"
    by (simp add: eval_defs)
  have nl: "CHR 0x0A \<notin> set (w_stdout (snd (main (store_env (Some catalog_file)) start)))"
    unfolding out by simp
  have "last (fmt_user u) = CHR ''n''" "last (fmt_restaurant r) = CHR ''n''"
    "last (fmt_join j) = CHR ''n''"
    by (simp_all add: fmt_user_def fmt_restaurant_def fmt_join_def)
  with out ex nl show ?thesis by simp
qed

section \<open>Round trip on the modelled store\<close>

text \<open>
  C7. On the modelled store with the modelled catalog: after the schema is
  initialised, whatever the store held before, inserting a user and selecting the
  users returns exactly one record, with the identity 1 that the store assigned (the
  identity in the record passed to the insert is not used) and with the name, last
  name, password, email and phone that were inserted. For the sample user of \<open>main\<close>
  that record is (1, lorem, lorem, lorem, lorem@example.com, +88888888888).
\<close>

theorem insert_then_select_roundtrip:
  "fst (Initialize (store_env (Some catalog_file))
         (fold decode_field catalog_file zero_Queries) w) = None
   \<and> fst (InsertUser (store_env (Some catalog_file)) u sql_insert_user
         (snd (Initialize (store_env (Some catalog_file))
                (fold decode_field catalog_file zero_Queries) w))) = None
   \<and> fst (SelectUsers (store_env (Some catalog_file)) sql_select_users
         (snd (InsertUser (store_env (Some catalog_file)) u sql_insert_user
            (snd (Initialize (store_env (Some catalog_file))
                   (fold decode_field catalog_file zero_Queries) w)))))
       = Return ([u\<lparr>u_ID := 1\<rparr>], None)
   \<and> sample_user\<lparr>u_ID := 1\<rparr>
       = \<lparr>u_ID = 1, u_Name = ''lorem'', u_Lastname = ''lorem'', u_Password = ''lorem'',
          u_Email = ''lorem@example.com'', u_Phone = ''+88888888888''\<rparr>
   \<and> q_InsertUser (fold decode_field catalog_file zero_Queries) = sql_insert_user
   \<and> q_SelectUsers (fold decode_field catalog_file zero_Queries) = sql_select_users"
  by (cases u) (simp add: eval_defs)

end
